theory Spec2Isabelle
  imports Complex_Main "HOL-Library.Sublist" "HOL-Library.Multiset"
begin

section \<open>Admission probability and counselling strategy engine\<close>

text \<open>
  A shallow embedding of the probability and strategy code of the NEET-PG college
  predictor. Python floats are idealised as real numbers extended with a not-a-number
  value, except where a result depends on the rounding of binary floating point: there
  the double-precision arithmetic is written out. Python integers are
  \<^typ>\<open>int\<close>; dictionaries are association lists in insertion order, or maps where
  the order plays no role.
\<close>

subsection \<open>Python values\<close>

text \<open>A float cell as pandas holds it: a number, or NaN for a missing value.\<close>

datatype pyfloat = NaN | Num real

text \<open>\<^verbatim>\<open>pd.isna\<close> and \<^verbatim>\<open>pd.notna\<close> on a float cell.\<close>

fun isna :: "pyfloat \<Rightarrow> bool" where
  "isna NaN = True"
| "isna (Num _) = False"

definition notna :: "pyfloat \<Rightarrow> bool" where
  "notna v = (\<not> isna v)"

text \<open>\<^verbatim>\<open>x == y\<close> for a float cell and a number: false on NaN.\<close>

fun eq :: "pyfloat \<Rightarrow> real \<Rightarrow> bool" where
  "eq NaN _ = False"
| "eq (Num x) y = (x = y)"

text \<open>The exceptions the modelled code can raise.\<close>

datatype error = ValueError | KeyError | ZeroDivisionError | AttributeError | RegexError

subsection \<open>The piecewise distance-decay estimate\<close>

text \<open>
  \<^verbatim>\<open>EnhancedPredictionAlgorithm.calculate_round_probability\<close>
  (backend/enhanced_prediction_algorithm.py, lines 67-92). A NaN or zero closing rank
  gives 0.0 before any clamping.
\<close>

definition calculate_round_probability :: "int \<Rightarrow> pyfloat \<Rightarrow> real" where
  "calculate_round_probability user_rank closing_rank =
     (if isna closing_rank \<or> eq closing_rank 0 then 0.0
      else (case closing_rank of
              NaN \<Rightarrow> 0.0
            | Num c \<Rightarrow>
                (let diff = \<bar>real_of_int user_rank - c\<bar>;
                     probability =
                       (if diff \<le> 10000 then 0.95 - 0.000045 * diff
                        else if diff \<le> 20000 then 0.5 - 0.00004 * (diff - 10000)
                        else if diff \<le> 40000 then 0.1 - 0.0000045 * (diff - 20000)
                        else 0.01)
                 in max 0.01 (min 0.95 probability))))"

text \<open>
  Two names used to state properties of the estimate: the absolute rank difference, and
  the unclamped value of the \<^verbatim>\<open>if\<close>/\<^verbatim>\<open>elif\<close> chain as a function of it.
\<close>

definition rank_diff :: "int \<Rightarrow> real \<Rightarrow> real" where
  "rank_diff user_rank c = \<bar>real_of_int user_rank - c\<bar>"

definition piecewise_decay :: "real \<Rightarrow> real" where
  "piecewise_decay diff =
     (if diff \<le> 10000 then 0.95 - 0.000045 * diff
      else if diff \<le> 20000 then 0.5 - 0.00004 * (diff - 10000)
      else if diff \<le> 40000 then 0.1 - 0.0000045 * (diff - 20000)
      else 0.01)"

subsection \<open>The piecewise estimate in double precision\<close>

text \<open>
  Where the exact value of a result matters, the arithmetic of the same function is taken
  as Python performs it, on IEEE 754 doubles: every literal and every result of an
  operation is rounded to the nearest double, ties to the even mantissa. \<open>double x\<close> is
  that rounding for magnitudes below the overflow threshold (the 53-bit mantissa, with the
  exponent held at -1022 for subnormal results).
\<close>

definition round_half_even :: "real \<Rightarrow> int" where
  "round_half_even y =
     (let f = \<lfloor>y\<rfloor>; d = y - real_of_int f
      in if d < 1 / 2 then f else if d > 1 / 2 then f + 1 else if even f then f else f + 1)"

definition double_exponent :: "real \<Rightarrow> int" where
  "double_exponent x = max \<lfloor>log 2 \<bar>x\<bar>\<rfloor> (- 1022)"

definition double :: "real \<Rightarrow> real" where
  "double x =
     (if x = 0 then 0
      else (let ulp = 2 powr real_of_int (double_exponent x - 52)
            in real_of_int (round_half_even (x / ulp)) * ulp))"

text \<open>
  \<^verbatim>\<open>calculate_round_probability\<close> (lines 67-92) with that arithmetic: the integer rank
  is converted to a double, and each subtraction and multiplication rounds. Comparisons,
  \<^verbatim>\<open>abs\<close>, \<^verbatim>\<open>max\<close> and \<^verbatim>\<open>min\<close> are exact. \<open>diff_double\<close> is the difference
  the function computes.
\<close>

definition calculate_round_probability_double :: "int \<Rightarrow> pyfloat \<Rightarrow> real" where
  "calculate_round_probability_double user_rank closing_rank =
     (if isna closing_rank \<or> eq closing_rank 0 then 0.0
      else (case closing_rank of
              NaN \<Rightarrow> 0.0
            | Num c \<Rightarrow>
                (let diff = \<bar>double (double (real_of_int user_rank) - c)\<bar>;
                     probability =
                       (if diff \<le> 10000
                        then double (double 0.95 - double (double 0.000045 * diff))
                        else if diff \<le> 20000
                        then double (double 0.5
                                       - double (double 0.00004 * double (diff - 10000)))
                        else if diff \<le> 40000
                        then double (double 0.1
                                       - double (double 0.0000045 * double (diff - 20000)))
                        else double 0.01)
                 in max (double 0.01) (min (double 0.95) probability))))"

definition diff_double :: "int \<Rightarrow> real \<Rightarrow> real" where
  "diff_double user_rank c = \<bar>double (double (real_of_int user_rank) - c)\<bar>"

subsection \<open>The distribution-based estimate\<close>

text \<open>
  A row of \<^verbatim>\<open>college_mappings\<close> (models/scripts/07_enhanced_prediction_system.py) is a
  pandas Series: a mapping from column labels to cells. \<^verbatim>\<open>college.get(k)\<close> is the
  lookup, \<^verbatim>\<open>college.get(k, d)\<close> is \<open>d\<close> only when the label \<open>k\<close> is absent.
\<close>

type_synonym series = "string \<rightharpoonup> pyfloat"

text \<open>The arithmetic mean, as \<^verbatim>\<open>np.mean\<close> and the pandas aggregates compute it.\<close>

definition mean :: "real list \<Rightarrow> real" where
  "mean xs = sum_list xs / real (length xs)"

text \<open>
  \<^verbatim>\<open>create_college_mappings\<close> (lines 87-117), the only place that builds the rows.
  After \<^verbatim>\<open>groupby(...).agg({...}).reset_index()\<close> the columns of
  \<^verbatim>\<open>rank_stats\<close> are pairs of a name and a statistic, the statistic being empty for
  the five key columns. Line 102 joins a pair with an underscore only when the statistic
  is not empty. The merge of lines 105-115 then looks the labels of \<^verbatim>\<open>right_on\<close> up
  among these columns, and pandas raises KeyError for a label that is not there. The
  joined table itself, were the lookup to succeed, is the argument \<open>merged\<close>.
\<close>

definition flatten_column :: "string \<times> string \<Rightarrow> string" where
  "flatten_column col = (if snd col \<noteq> [] then fst col @ ''_'' @ snd col else fst col)"

definition rank_stats_columns :: "string list" where
  "rank_stats_columns =
     map flatten_column
       (map (\<lambda>k. (k, [])) [''Institute'', ''Course'', ''State'', ''Category'', ''Quota'']
        @ map (Pair ''closing_rank'') [''mean'', ''median'', ''min'', ''max'', ''std'', ''count'']
        @ map (Pair ''year'') [''min'', ''max'']
        @ map (Pair ''round'') [''min'', ''max'', ''nunique''])"

definition merge_right_on :: "string list \<Rightarrow> string list \<Rightarrow> 'a \<Rightarrow> error + 'a" where
  "merge_right_on right_on columns merged =
     (if list_all (\<lambda>label. label \<in> set columns) right_on then Inr merged else Inl KeyError)"

definition create_college_mappings :: "series list \<Rightarrow> error + series list" where
  "create_college_mappings merged =
     merge_right_on [''Institute_'', ''Course_'', ''State_'', ''Category_'', ''Quota_'']
       rank_stats_columns merged"

text \<open>
  The probability computed for one row in \<^verbatim>\<open>predict_college_admission_probability\<close>
  (lines 148-163). \<^verbatim>\<open>std_closing_rank > 0\<close> is false for NaN, so a NaN deviation takes
  the binary branch.
\<close>

definition admission_probability :: "int \<Rightarrow> series \<Rightarrow> real" where
  "admission_probability user_rank college =
     (case college ''closing_rank_mean'' of
        Some (Num mean_closing_rank) \<Rightarrow>
          (let std_closing_rank =
                 (case college ''closing_rank_std'' of
                    None \<Rightarrow> Num (mean_closing_rank * 0.1)
                  | Some v \<Rightarrow> v)
           in (case std_closing_rank of
                 Num s \<Rightarrow>
                   (if s > 0
                    then (let z_score = (real_of_int user_rank - mean_closing_rank) / s
                          in 1 / (1 + exp z_score))
                    else if real_of_int user_rank \<le> mean_closing_rank then 1.0 else 0.0)
               | NaN \<Rightarrow> if real_of_int user_rank \<le> mean_closing_rank then 1.0 else 0.0))
      | _ \<Rightarrow> 0.5)"

subsection \<open>Python and numpy built-ins\<close>

text \<open>
  \<^verbatim>\<open>max\<close> over a non-empty sequence keeps the first maximal element: the running
  best is replaced only by a strictly greater one. \<open>max_key_from\<close> is
  \<^verbatim>\<open>max(d, key=d.get)\<close> over the items of a dictionary.
\<close>

fun max_from :: "real \<Rightarrow> real list \<Rightarrow> real" where
  "max_from best [] = best"
| "max_from best (x # xs) = max_from (if x > best then x else best) xs"

fun max_key_from :: "'k \<times> real \<Rightarrow> ('k \<times> real) list \<Rightarrow> 'k" where
  "max_key_from (bk, bv) [] = bk"
| "max_key_from (bk, bv) ((k, v) # kvs) =
     max_key_from (if v > bv then (k, v) else (bk, bv)) kvs"

text \<open>\<^verbatim>\<open>int(x)\<close> truncates towards zero and raises ValueError on NaN.\<close>

fun py_int :: "pyfloat \<Rightarrow> error + int" where
  "py_int NaN = Inl ValueError"
| "py_int (Num x) = Inr (if x \<ge> 0 then \<lfloor>x\<rfloor> else \<lceil>x\<rceil>)"

text \<open>\<^verbatim>\<open>np.mean\<close> of a non-empty list of floats: NaN as soon as one element is NaN.\<close>

definition np_mean :: "pyfloat list \<Rightarrow> pyfloat" where
  "np_mean vs = (if list_ex isna vs then NaN
                 else Num (mean (map (\<lambda>v. case v of Num x \<Rightarrow> x | NaN \<Rightarrow> 0) vs)))"

subsection \<open>Admission probabilities of one offer\<close>

text \<open>
  The dictionary \<^verbatim>\<open>extract_round_data\<close> returns, and the one
  \<^verbatim>\<open>calculate_admission_probabilities\<close> returns
  (backend/enhanced_prediction_algorithm.py, lines 94-159). Keys are round keys such as
  \<^verbatim>\<open>2023_R1\<close>; a Python dictionary holds each key once.
\<close>

record round_info =
  year :: int
  round_no :: int
  closing_rank :: real

record round_data =
  closing_ranks :: "(string \<times> pyfloat) list"
  probabilities :: "(string \<times> real) list"
  round_info :: "(string \<times> round_info) list"

record admission_data =
  round_probabilities :: "(string \<times> real) list"
  best_round :: "string option"
  overall_probability :: real
  predicted_closing_rank :: int

text \<open>
  \<^verbatim>\<open>if best_round and best_round in round_data['closing_ranks']\<close>: an empty string
  is falsy. \<^verbatim>\<open>int(predicted_closing_rank)\<close> raises on NaN.
\<close>

definition calculate_admission_probabilities :: "int \<Rightarrow> round_data \<Rightarrow> error + admission_data" where
  "calculate_admission_probabilities user_rank rd =
     (if closing_ranks rd = []
      then Inr \<lparr>round_probabilities = [], best_round = None,
                overall_probability = 0.05,
                predicted_closing_rank = user_rank + 5000\<rparr>
      else
        (let round_probabilities =
               map (\<lambda>(round_key, closing_rank).
                      (round_key, calculate_round_probability user_rank closing_rank))
                   (closing_ranks rd);
             best_round =
               (case round_probabilities of [] \<Rightarrow> None
                | kp # kps \<Rightarrow> Some (max_key_from kp kps));
             overall_probability =
               (case map snd round_probabilities of [] \<Rightarrow> 0.05
                | p # ps \<Rightarrow> max_from p ps);
             available_ranks = map snd (closing_ranks rd);
             fallback =
               (if available_ranks \<noteq> [] then np_mean available_ranks
                else Num (real_of_int (user_rank + 5000)));
             predicted_closing_rank =
               (case best_round of
                  None \<Rightarrow> fallback
                | Some k \<Rightarrow>
                    (if k \<noteq> []
                     then (case map_of (closing_ranks rd) k of
                             Some c \<Rightarrow> c
                           | None \<Rightarrow> fallback)
                     else fallback))
         in (case py_int predicted_closing_rank of
               Inl e \<Rightarrow> Inl e
             | Inr n \<Rightarrow>
                 Inr \<lparr>round_probabilities = round_probabilities, best_round = best_round,
                      overall_probability = overall_probability,
                      predicted_closing_rank = n\<rparr>)))"

subsection \<open>Dictionaries and strings\<close>

text \<open>
  \<^verbatim>\<open>d[k] = v\<close> on an insertion-ordered dictionary: an existing key keeps its position,
  a new key goes to the end.
\<close>

fun dict_set :: "'k \<Rightarrow> 'v \<Rightarrow> ('k \<times> 'v) list \<Rightarrow> ('k \<times> 'v) list" where
  "dict_set k v [] = [(k, v)]"
| "dict_set k v ((k', v') # d) = (if k' = k then (k, v) # d else (k', v') # dict_set k v d)"

text \<open>\<^verbatim>\<open>str(n)\<close> of an integer, as the f-strings use it.\<close>

fun str_nat :: "nat \<Rightarrow> string" where
  "str_nat n = (if n < 10 then [char_of (48 + n)]
                else str_nat (n div 10) @ [char_of (48 + n mod 10)])"

definition str_int :: "int \<Rightarrow> string" where
  "str_int i = (if i < 0 then CHR ''-'' # str_nat (nat (- i)) else str_nat (nat i))"

subsection \<open>The round prediction engine: historical analysis\<close>

text \<open>
  models/scripts/round_prediction_engine.py. The dictionaries of this engine are keyed by
  strings: \<^verbatim>\<open>f'round_{n}'\<close> for a round number \<open>n\<close>, written \<open>Round n\<close> here, and a
  few fixed names that do not start with \<^verbatim>\<open>round_\<close>, written \<open>Other name\<close>.
  Under this reading \<^verbatim>\<open>key.startswith('round_')\<close> is "the key is a \<open>Round\<close>" and
  \<^verbatim>\<open>int(key.split('_')[1])\<close> is its number.
\<close>

datatype key = Round int | Other string

text \<open>
  The per-round statistics of \<^verbatim>\<open>_analyze_historical_rounds\<close> (lines 206-216). The
  entries read later with \<^verbatim>\<open>in\<close> or \<^verbatim>\<open>.get\<close> are optional: \<open>None\<close> is an absent
  key. (\<^verbatim>\<open>candidate_position\<close>, a percentile description never read again, is left
  out.)
\<close>

record round_stats =
  historical_closing_ranks :: "real list"
  mean_closing_rank :: "real option"
  median_closing_rank :: "real option"
  std_closing_rank :: "real option"
  min_closing_rank :: real
  max_closing_rank :: real
  years_with_data :: "int option"
  success_probability :: "real option"

datatype analysis_value = Stats round_stats | NoStats

text \<open>\<^verbatim>\<open>np.median\<close> and \<^verbatim>\<open>np.std\<close> (the population deviation) of a non-empty array.\<close>

definition np_median :: "real list \<Rightarrow> real" where
  "np_median xs =
     (let s = sort xs; n = length xs
      in if odd n then s ! (n div 2) else (s ! (n div 2 - 1) + s ! (n div 2)) / 2)"

definition np_std :: "real list \<Rightarrow> real" where
  "np_std xs = sqrt (mean (map (\<lambda>x. (x - mean xs)\<^sup>2) xs))"

text \<open>\<^verbatim>\<open>_calculate_success_probability\<close> (lines 253-268).\<close>

definition calculate_success_probability :: "int \<Rightarrow> real list \<Rightarrow> real" where
  "calculate_success_probability candidate_air historical_ranks =
     (if length historical_ranks = 0 then 0.0
      else (let successes = length (filter (\<lambda>c. c \<ge> real_of_int candidate_air) historical_ranks);
                total_attempts = length historical_ranks;
                alpha = 1; beta = 1
            in real (successes + alpha) / real (total_attempts + alpha + beta)))"

text \<open>
  \<^verbatim>\<open>_analyze_historical_rounds\<close> (lines 182-224) on the historical rows already
  filtered for one offer, each a pair of round number and closing rank. The rounds are
  visited in \<^verbatim>\<open>sorted(filtered_data['round'].unique())\<close> order.
\<close>

definition round_statistics :: "int \<Rightarrow> real list \<Rightarrow> round_stats" where
  "round_statistics candidate_air ranks =
     \<lparr>historical_closing_ranks = ranks,
      mean_closing_rank = Some (mean ranks),
      median_closing_rank = Some (np_median ranks),
      std_closing_rank = Some (np_std ranks),
      min_closing_rank = Min (set ranks),
      max_closing_rank = Max (set ranks),
      years_with_data = Some (int (length ranks)),
      success_probability = Some (calculate_success_probability candidate_air ranks)\<rparr>"

definition analyze_historical_rounds :: "int \<Rightarrow> (int \<times> real) list \<Rightarrow> (key \<times> analysis_value) list" where
  "analyze_historical_rounds candidate_air filtered_data =
     (if filtered_data = [] then [(Other ''error'', NoStats)]
      else map (\<lambda>round_num.
                  (Round round_num,
                   Stats (round_statistics candidate_air
                            (map snd (filter (\<lambda>row. fst row = round_num) filtered_data)))))
               (sort (remdups (map fst filtered_data)))
           @ [(Other ''progression_patterns'', NoStats)])"

subsection \<open>The round prediction engine: per-round probabilities\<close>

record round_entry =
  probability :: real
  confidence :: string
  historical_median_rank :: real
  candidate_rank_difference :: real
  interpretation_label :: string

record optimal_round =
  opt_round :: "int option"
  opt_probability :: real
  opt_recommendation :: string
  opt_confidence :: "string option"

text \<open>
  The values of the \<^verbatim>\<open>round_probabilities\<close> dictionary: a per-round entry, the
  cumulative dictionary, or the optimal-round dictionary. All three are Python
  dictionaries, so \<^verbatim>\<open>isinstance(data, dict)\<close> holds for each.
\<close>

datatype rp_value =
  Entry round_entry
| Cumulative "(key \<times> real) list"
| Optimal optimal_round

text \<open>\<^verbatim>\<open>data.get('probability', 0)\<close> and \<^verbatim>\<open>data.get('confidence', default)\<close>.\<close>

fun get_probability :: "rp_value \<Rightarrow> real" where
  "get_probability (Entry e) = probability e"
| "get_probability (Cumulative _) = 0"
| "get_probability (Optimal opt) = opt_probability opt"

fun get_confidence :: "string \<Rightarrow> rp_value \<Rightarrow> string" where
  "get_confidence dflt (Entry e) = confidence e"
| "get_confidence dflt (Cumulative _) = dflt"
| "get_confidence dflt (Optimal opt) =
     (case opt_confidence opt of None \<Rightarrow> dflt | Some c \<Rightarrow> c)"

text \<open>\<^verbatim>\<open>_calculate_prediction_confidence\<close> (lines 367-382).\<close>

definition calculate_prediction_confidence :: "round_stats \<Rightarrow> string" where
  "calculate_prediction_confidence round_data =
     (let years_of_data = (case years_with_data round_data of None \<Rightarrow> 0 | Some y \<Rightarrow> y);
          std_rank = (case std_closing_rank round_data of None \<Rightarrow> 0 | Some s \<Rightarrow> s);
          mean_rank = (case mean_closing_rank round_data of None \<Rightarrow> 1 | Some m \<Rightarrow> m);
          cv = (if mean_rank > 0 then std_rank / mean_rank else 1)
      in if years_of_data \<ge> 2 \<and> cv < 0.2 then ''High''
         else if years_of_data \<ge> 1 \<and> cv < 0.4 then ''Medium''
         else ''Low'')"

text \<open>\<^verbatim>\<open>_interpret_round_probability\<close> (lines 384-395).\<close>

definition interpret_round_probability :: "real \<Rightarrow> string" where
  "interpret_round_probability p =
     (if p \<ge> 0.8 then ''Very High - Strong likelihood of admission''
      else if p \<ge> 0.6 then ''High - Good chances of admission''
      else if p \<ge> 0.4 then ''Moderate - Fair chances, consider as backup''
      else if p \<ge> 0.2 then ''Low - Unlikely but possible''
      else ''Very Low - Admission highly unlikely'')"

text \<open>
  \<^verbatim>\<open>_calculate_cumulative_probabilities\<close> (lines 397-418).
  \<^verbatim>\<open>round_probs[round_key]['probability']\<close> raises KeyError on a dictionary without
  that key.
\<close>

fun round_numbers :: "(key \<times> 'v) list \<Rightarrow> int list" where
  "round_numbers [] = []"
| "round_numbers ((Round n, _) # d) = n # round_numbers d"
| "round_numbers ((Other _, _) # d) = round_numbers d"

fun cumulative_loop ::
  "(key \<times> rp_value) list \<Rightarrow> int list \<Rightarrow> real \<Rightarrow> (key \<times> real) list \<Rightarrow> error + (key \<times> real) list" where
  "cumulative_loop round_probs [] total_prob cumulative = Inr cumulative"
| "cumulative_loop round_probs (round_num # rest) total_prob cumulative =
     (case map_of round_probs (Round round_num) of
        None \<Rightarrow> cumulative_loop round_probs rest total_prob cumulative
      | Some (Cumulative _) \<Rightarrow> Inl KeyError
      | Some v \<Rightarrow>
          (let round_prob = get_probability v;
               total_prob' = 1 - (1 - total_prob) * (1 - round_prob)
           in cumulative_loop round_probs rest total_prob'
                (dict_set (Round round_num) total_prob' cumulative)))"

definition calculate_cumulative_probabilities ::
  "(key \<times> rp_value) list \<Rightarrow> error + (key \<times> real) list" where
  "calculate_cumulative_probabilities round_probs =
     cumulative_loop round_probs (sort (round_numbers round_probs)) 0.0 []"

text \<open>\<^verbatim>\<open>_determine_optimal_round\<close> (lines 420-440).\<close>

fun optimal_loop :: "(key \<times> rp_value) list \<Rightarrow> real \<times> int option \<Rightarrow> real \<times> int option" where
  "optimal_loop [] best = best"
| "optimal_loop ((Round n, data) # d) (best_p, best_r) =
     optimal_loop d (if get_probability data > best_p then (get_probability data, Some n)
                     else (best_p, best_r))"
| "optimal_loop ((Other _, data) # d) best = optimal_loop d best"

definition determine_optimal_round :: "(key \<times> rp_value) list \<Rightarrow> optimal_round" where
  "determine_optimal_round round_probs =
     (case optimal_loop round_probs (0.0, None) of
        (best_p, None) \<Rightarrow>
          \<lparr>opt_round = None, opt_probability = 0.0,
           opt_recommendation = ''Insufficient data'', opt_confidence = None\<rparr>
      | (best_p, Some best_round_num) \<Rightarrow>
          \<lparr>opt_round = Some best_round_num, opt_probability = best_p,
           opt_recommendation =
             ''Most likely to get admission in Round '' @ str_int best_round_num,
           opt_confidence =
             Some (case map_of round_probs (Round best_round_num) of
                     None \<Rightarrow> ''Unknown''
                   | Some v \<Rightarrow> get_confidence ''Unknown'' v)\<rparr>)"

text \<open>
  \<^verbatim>\<open>_calculate_round_probabilities\<close> (lines 323-365). \<open>make_round_entry\<close> is the
  body of its loop for one round whose statistics hold a success probability. The
  argument \<open>np_exp\<close> stands for \<^verbatim>\<open>np.exp\<close> on doubles, which is not the real
  exponential: it returns 0.0 for an argument below about -745.
\<close>

definition make_round_entry ::
  "(real \<Rightarrow> real) \<Rightarrow> real \<Rightarrow> round_stats \<Rightarrow> real \<Rightarrow> round_entry" where
  "make_round_entry np_exp predicted_rank round_data base_prob =
     (let historical_median =
            (case median_closing_rank round_data of
               None \<Rightarrow> predicted_rank | Some m \<Rightarrow> m);
          adjusted_prob =
            (if historical_median > 0
             then base_prob * np_exp (- (predicted_rank - historical_median) / historical_median)
             else base_prob);
          adjusted_prob' = max 0.0 (min 1.0 adjusted_prob)
      in \<lparr>probability = adjusted_prob',
          confidence = calculate_prediction_confidence round_data,
          historical_median_rank = historical_median,
          candidate_rank_difference = predicted_rank - historical_median,
          interpretation_label = interpret_round_probability adjusted_prob'\<rparr>)"

fun round_probabilities_loop ::
  "(real \<Rightarrow> real) \<Rightarrow> real \<Rightarrow> (key \<times> analysis_value) list \<Rightarrow> (key \<times> rp_value) list \<Rightarrow> (key \<times> rp_value) list" where
  "round_probabilities_loop np_exp predicted_rank [] round_probs = round_probs"
| "round_probabilities_loop np_exp predicted_rank ((Round round_num, Stats round_data) # rest)
       round_probs =
     (case success_probability round_data of
        None \<Rightarrow> round_probabilities_loop np_exp predicted_rank rest round_probs
      | Some base_prob \<Rightarrow>
          round_probabilities_loop np_exp predicted_rank rest
            (dict_set (Round round_num)
               (Entry (make_round_entry np_exp predicted_rank round_data base_prob)) round_probs))"
| "round_probabilities_loop np_exp predicted_rank (_ # rest) round_probs =
     round_probabilities_loop np_exp predicted_rank rest round_probs"

definition calculate_round_probabilities ::
  "(real \<Rightarrow> real) \<Rightarrow> real \<Rightarrow> (key \<times> analysis_value) list \<Rightarrow> error + (key \<times> rp_value) list" where
  "calculate_round_probabilities np_exp predicted_rank round_analysis =
     (let round_probs = round_probabilities_loop np_exp predicted_rank round_analysis []
      in case calculate_cumulative_probabilities round_probs of
           Inl e \<Rightarrow> Inl e
         | Inr cumulative_probs \<Rightarrow>
             (let round_probs' =
                    dict_set (Other ''cumulative_probabilities'') (Cumulative cumulative_probs)
                      round_probs;
                  optimal = determine_optimal_round round_probs'
              in Inr (dict_set (Other ''optimal_round'') (Optimal optimal) round_probs')))"

text \<open>\<^verbatim>\<open>_calculate_confidence_intervals\<close> (lines 442-475).\<close>

record interval =
  lower_bound :: real
  upper_bound :: real
  margin_of_error :: real
  confidence_level :: string

definition confidence_interval :: "rp_value \<Rightarrow> interval" where
  "confidence_interval data =
     (let prob = get_probability data;
          confidence = get_confidence ''Low'' data;
          margin = (if confidence = ''High'' then 0.05
                    else if confidence = ''Medium'' then 0.10
                    else 0.15);
          lower_bound = max 0.0 (prob - margin);
          upper_bound = min 1.0 (prob + margin)
      in \<lparr>lower_bound = lower_bound, upper_bound = upper_bound,
          margin_of_error = margin, confidence_level = confidence\<rparr>)"

fun confidence_intervals_loop ::
  "(key \<times> rp_value) list \<Rightarrow> (key \<times> interval) list \<Rightarrow> (key \<times> interval) list" where
  "confidence_intervals_loop [] confidence_intervals = confidence_intervals"
| "confidence_intervals_loop ((Round n, data) # d) confidence_intervals =
     confidence_intervals_loop d (dict_set (Round n) (confidence_interval data) confidence_intervals)"
| "confidence_intervals_loop ((Other _, data) # d) confidence_intervals =
     confidence_intervals_loop d confidence_intervals"

definition calculate_confidence_intervals :: "(key \<times> rp_value) list \<Rightarrow> (key \<times> interval) list" where
  "calculate_confidence_intervals round_probs = confidence_intervals_loop round_probs []"

subsection \<open>The round prediction engine: counselling strategy\<close>

text \<open>
  \<^verbatim>\<open>_generate_counseling_strategy\<close> (lines 477-548). The list of free-text
  \<^verbatim>\<open>specific_recommendations\<close> is not modelled; it is computed after the two groups
  and does not change them.
\<close>

record strategy_entry =
  se_round :: int
  se_probability :: real
  se_confidence :: string
  se_recommendation :: string

record strategy =
  recommended_approach :: string
  priority_rounds :: "strategy_entry list"
  backup_options :: "strategy_entry list"
  risk_assessment :: string

text \<open>The triples \<^verbatim>\<open>(round_num, prob, confidence)\<close> collected from the dictionary.\<close>

fun strategy_round_data :: "(key \<times> rp_value) list \<Rightarrow> (int \<times> real \<times> string) list" where
  "strategy_round_data [] = []"
| "strategy_round_data ((Round n, data) # d) =
     (n, get_probability data, get_confidence ''Low'' data) # strategy_round_data d"
| "strategy_round_data ((Other _, data) # d) = strategy_round_data d"

text \<open>
  \<^verbatim>\<open>round_data.sort(key=lambda x: x[1], reverse=True)\<close>: a stable sort, descending in
  the probability.
\<close>

definition sort_by_probability :: "(int \<times> real \<times> string) list \<Rightarrow> (int \<times> real \<times> string) list" where
  "sort_by_probability round_data = sort_key (\<lambda>x. - fst (snd x)) round_data"

definition priority_entry :: "int \<times> real \<times> string \<Rightarrow> strategy_entry" where
  "priority_entry x =
     \<lparr>se_round = fst x, se_probability = fst (snd x), se_confidence = snd (snd x),
      se_recommendation = ''Strong candidate for Round '' @ str_int (fst x)\<rparr>"

definition backup_entry :: "int \<times> real \<times> string \<Rightarrow> strategy_entry" where
  "backup_entry x =
     \<lparr>se_round = fst x, se_probability = fst (snd x), se_confidence = snd (snd x),
      se_recommendation = ''Consider as backup in Round '' @ str_int (fst x)\<rparr>"

fun priority_loop ::
  "real \<Rightarrow> (int \<times> real \<times> string) list \<Rightarrow> strategy_entry list \<Rightarrow> strategy_entry list" where
  "priority_loop priority_threshold [] priority = priority"
| "priority_loop priority_threshold (x # rest) priority =
     priority_loop priority_threshold rest
       (if fst (snd x) \<ge> priority_threshold \<and> length priority < 3
        then priority @ [priority_entry x] else priority)"

fun backup_loop ::
  "real \<Rightarrow> (int \<times> real \<times> string) list \<Rightarrow> strategy_entry list \<Rightarrow> strategy_entry list" where
  "backup_loop priority_threshold [] backup = backup"
| "backup_loop priority_threshold (x # rest) backup =
     backup_loop priority_threshold rest
       (if 0.1 \<le> fst (snd x) \<and> fst (snd x) < priority_threshold \<and> length backup < 2
        then backup @ [backup_entry x] else backup)"

definition generate_counseling_strategy :: "(key \<times> rp_value) list \<Rightarrow> strategy" where
  "generate_counseling_strategy round_probs =
     (let round_data = sort_by_probability (strategy_round_data round_probs)
      in case round_data of
           [] \<Rightarrow>
             \<lparr>recommended_approach = ''Insufficient data for strategy recommendation'',
              priority_rounds = [], backup_options = [], risk_assessment = []\<rparr>
         | best # _ \<Rightarrow>
             (let best_prob = fst (snd best);
                  priority_threshold = max 0.3 (best_prob * 0.5)
              in \<lparr>recommended_approach =
                    (if best_prob \<ge> 0.7 then ''Aggressive - Focus on preferred choices''
                     else if best_prob \<ge> 0.4 then ''Balanced - Mix of preferred and safe choices''
                     else ''Conservative - Focus on safety options''),
                  priority_rounds = priority_loop priority_threshold round_data [],
                  backup_options = backup_loop priority_threshold round_data [],
                  risk_assessment =
                    (if best_prob \<ge> 0.7 then ''Low risk - High probability of admission''
                     else if best_prob \<ge> 0.4
                     then ''Medium risk - Good chances but prepare alternatives''
                     else ''High risk - Consider widening criteria'')\<rparr>))"

text \<open>
  Names for stating the strategy's thresholds: the best probability among the rounds and
  the priority threshold derived from it.
\<close>

definition best_probability :: "(key \<times> rp_value) list \<Rightarrow> real" where
  "best_probability round_probs = Max (set (map (fst \<circ> snd) (strategy_round_data round_probs)))"

definition priority_threshold_of :: "(key \<times> rp_value) list \<Rightarrow> real" where
  "priority_threshold_of round_probs = max 0.3 (best_probability round_probs * 0.5)"

text \<open>
  Names for stating the cumulative probabilities: the probability stored for a round, and
  the value the specification gives for the rounds up to \<open>n\<close>.
\<close>

definition round_probability :: "(key \<times> rp_value) list \<Rightarrow> int \<Rightarrow> real" where
  "round_probability round_probs n =
     (case map_of round_probs (Round n) of None \<Rightarrow> 0 | Some v \<Rightarrow> get_probability v)"

definition cumulative_by_round :: "(key \<times> rp_value) list \<Rightarrow> int \<Rightarrow> real" where
  "cumulative_by_round round_probs n =
     1 - prod_list (map (\<lambda>m. 1 - round_probability round_probs m)
                      (filter (\<lambda>m. m \<le> n) (sort (round_numbers round_probs))))"

text \<open>A round-probability dictionary whose round keys all hold entries with a probability in [0, 1].\<close>

fun unit_entries :: "(key \<times> rp_value) list \<Rightarrow> bool" where
  "unit_entries [] = True"
| "unit_entries ((Round n, Entry e) # d) = (0 \<le> probability e \<and> probability e \<le> 1 \<and> unit_entries d)"
| "unit_entries ((Round n, _) # d) = False"
| "unit_entries ((Other _, _) # d) = unit_entries d"

subsection \<open>The prediction list\<close>

text \<open>
  \<^verbatim>\<open>predict_colleges\<close> and its helpers (backend/enhanced_prediction_algorithm.py).
  A row of the loaded table, reduced to the cells the prediction reads: the text cells
  as \<^verbatim>\<open>str\<close> renders them, the state as a string or \<open>None\<close> when the cell is not a
  string (a NaN cell has no \<^verbatim>\<open>upper\<close> method), the numeric cells as floats or
  \<open>None\<close> when the column is absent, and the closing-rank columns in the order of
  \<^verbatim>\<open>cr_columns\<close>, each with its column name.
\<close>

record row =
  row_institute :: string
  row_course :: string
  row_state :: "string option"
  row_category :: string
  row_quota :: string
  row_fee :: "pyfloat option"
  row_stipend_year1 :: "pyfloat option"
  row_bond_years :: "pyfloat option"
  row_cr :: "(string \<times> pyfloat) list"













section \<open>Properties of the piecewise estimate\<close>

lemma calculate_round_probability_decay:
  "c \<noteq> 0 \<Longrightarrow> calculate_round_probability r (Num c) =
     max 0.01 (min 0.95 (piecewise_decay (rank_diff r c)))"
  by (simp add: calculate_round_probability_def rank_diff_def piecewise_decay_def Let_def)

lemma calculate_round_probability_invalid:
  "calculate_round_probability r NaN = 0" "calculate_round_probability r (Num 0) = 0"
  by (simp_all add: calculate_round_probability_def)

lemma calculate_round_probability_bounds:
  "c \<noteq> 0 \<Longrightarrow> 0.01 \<le> calculate_round_probability r (Num c) \<and>
     calculate_round_probability r (Num c) \<le> 0.95"
  by (simp add: calculate_round_probability_decay)

lemma piecewise_decay_antimono:
  assumes "d1 \<le> d2"
  shows "piecewise_decay d2 \<le> piecewise_decay d1"
proof -
  consider "d2 \<le> 10000" | "10000 < d2" "d2 \<le> 20000"
    | "20000 < d2" "d2 \<le> 40000" | "40000 < d2"
    by linarith
  then show ?thesis
  proof cases
    case 1
    with assms show ?thesis
      by (simp add: piecewise_decay_def field_simps)
  next
    case 2
    with assms show ?thesis
      by (cases "d1 \<le> 10000") (simp_all add: piecewise_decay_def field_simps)
  next
    case 3
    with assms show ?thesis
      by (cases "d1 \<le> 10000"; cases "d1 \<le> 20000")
        (simp_all add: piecewise_decay_def field_simps)
  next
    case 4
    with assms show ?thesis
      by (cases "d1 \<le> 10000"; cases "d1 \<le> 20000"; cases "d1 \<le> 40000")
        (simp_all add: piecewise_decay_def field_simps)
  qed
qed

text \<open>
  The double-precision variant: its rounding at the values the estimate meets, and its
  agreement with the exact difference on integer ranks.
\<close>

lemma floor_log2_eq:
  assumes "2 powr real_of_int e \<le> \<bar>x\<bar>" "\<bar>x\<bar> < 2 powr real_of_int (e + 1)"
  shows "\<lfloor>log 2 \<bar>x\<bar>\<rfloor> = e"
proof -
  have pos: "0 < \<bar>x\<bar>" using assms(1) by (smt (verit) powr_gt_zero)
  have "real_of_int e \<le> log 2 \<bar>x\<bar>" using assms(1) pos by (simp add: le_log_iff)
  moreover have "log 2 \<bar>x\<bar> < real_of_int (e + 1)" using assms(2) pos by (simp add: log_less_iff)
  ultimately show ?thesis by (simp add: floor_eq_iff)
qed

lemma powr_minus_nat: "2 powr (- real n) = 1 / 2 ^ n"
  by (simp add: powr_minus powr_realpow divide_simps)

lemma double_eval_neg:
  fixes k :: nat
  assumes "1 / 2 ^ k \<le> \<bar>x\<bar>" "\<bar>x\<bar> < 2 / 2 ^ k" "k \<le> 1022"
  shows "double x = real_of_int (round_half_even (x * 2 ^ (52 + k))) / 2 ^ (52 + k)"
proof -
  have "real_of_int (- int k) = - real k" by simp
  then have p1: "2 powr real_of_int (- int k) = 1 / 2 ^ k"
    by (simp only: powr_minus_nat)
  have p2: "2 powr real_of_int (- int k + 1) = 2 / 2 ^ k"
    by (simp add: powr_diff powr_realpow)
  have e: "\<lfloor>log 2 \<bar>x\<bar>\<rfloor> = - int k"
    by (rule floor_log2_eq) (use assms p1 p2 in simp_all)
  have de: "double_exponent x = - int k" using e assms(3) by (simp add: double_exponent_def)
  have "real_of_int (double_exponent x - 52) = - real (52 + k)" using de by simp
  then have ulp: "2 powr real_of_int (double_exponent x - 52) = 1 / 2 ^ (52 + k)"
    by (simp only: powr_minus_nat)
  have "0 < \<bar>x\<bar>" using assms(1) by (smt (verit) zero_less_power divide_pos_pos)
  then have nz: "x \<noteq> 0" by simp
  show ?thesis unfolding double_def Let_def ulp using nz by simp
qed

lemma double_eval_pos:
  fixes k :: nat
  assumes "2 ^ k \<le> \<bar>x\<bar>" "\<bar>x\<bar> < 2 * 2 ^ k" "k \<le> 52"
  shows "double x = real_of_int (round_half_even (x * 2 ^ (52 - k))) / 2 ^ (52 - k)"
proof -
  have p1: "2 powr real_of_int (int k) = 2 ^ k"
    by (simp add: powr_realpow)
  have p2: "2 powr real_of_int (int k + 1) = 2 * 2 ^ k"
    by (simp add: powr_add powr_realpow)
  have e: "\<lfloor>log 2 \<bar>x\<bar>\<rfloor> = int k"
    by (rule floor_log2_eq) (use assms p1 p2 in simp_all)
  have de: "double_exponent x = int k" using e by (simp add: double_exponent_def)
  have "real_of_int (double_exponent x - 52) = - real (52 - k)" using de assms(3) by simp
  then have ulp: "2 powr real_of_int (double_exponent x - 52) = 1 / 2 ^ (52 - k)"
    by (simp only: powr_minus_nat)
  have "0 < \<bar>x\<bar>" using assms(1) by (smt (verit) zero_less_power)
  then have nz: "x \<noteq> 0" by simp
  show ?thesis unfolding double_def Let_def ulp using nz by simp
qed

lemma double_095: "double 0.95 = 8556839292003942 / 2 ^ 53"
  using double_eval_neg [of 1 "0.95"] by (simp add: round_half_even_def)

lemma double_000045: "double 0.000045 = 6640827866535439 / 2 ^ 67"
  using double_eval_neg [of 15 "0.000045"] by (simp add: round_half_even_def)

lemma double_001: "double 0.01 = 5764607523034235 / 2 ^ 59"
  using double_eval_neg [of 7 "0.01"] by (simp add: round_half_even_def)

lemma double_zero: "double 0 = 0"
  by (simp add: double_def)

lemma double_095_fixed: "double (8556839292003942 / 2 ^ 53) = 8556839292003942 / 2 ^ 53"
  using double_eval_neg [of 1 "8556839292003942 / 2 ^ 53"] by (simp add: round_half_even_def)

lemma double_product_10000:
  "double (6640827866535439 / 2 ^ 67 * 10000) = 8106479329266893 / 2 ^ 54"
  using double_eval_neg [of 2 "6640827866535439 / 2 ^ 67 * 10000"]
  by (simp add: round_half_even_def)

lemma double_difference_10000:
  "double (8556839292003942 / 2 ^ 53 - 8106479329266893 / 2 ^ 54) = 1 / 2 - 1 / 2 ^ 54"
  using double_eval_neg [of 2 "8556839292003942 / 2 ^ 53 - 8106479329266893 / 2 ^ 54"]
  by (simp add: round_half_even_def)

lemma calculate_round_probability_double_Num:
  "c \<noteq> 0 \<Longrightarrow> calculate_round_probability_double r (Num c) =
     max (double 0.01) (min (double 0.95)
       (if diff_double r c \<le> 10000
        then double (double 0.95 - double (double 0.000045 * diff_double r c))
        else if diff_double r c \<le> 20000
        then double (double 0.5 - double (double 0.00004 * double (diff_double r c - 10000)))
        else if diff_double r c \<le> 40000
        then double (double 0.1 - double (double 0.0000045 * double (diff_double r c - 20000)))
        else double 0.01))"
  by (simp add: calculate_round_probability_double_def diff_double_def Let_def)

lemma calculate_round_probability_double_at_0:
  assumes c: "c \<noteq> 0" and d: "diff_double r c = 0"
  shows "calculate_round_probability_double r (Num c) = double 0.95"
proof -
  have "calculate_round_probability_double r (Num c) =
          max (double 0.01) (min (double 0.95)
            (double (double 0.95 - double (double 0.000045 * 0))))"
    unfolding calculate_round_probability_double_Num [OF c] d
    by (simp only: zero_le_numeral if_True)
  also have "\<dots> = max (5764607523034235 / 2 ^ 59)
                     (min (8556839292003942 / 2 ^ 53) (8556839292003942 / 2 ^ 53))"
    by (simp only: mult_zero_right double_zero diff_zero double_095 double_095_fixed double_001)
  also have "\<dots> = 8556839292003942 / 2 ^ 53" by simp
  finally show ?thesis by (simp only: double_095)
qed

lemma calculate_round_probability_double_at_10000:
  assumes c: "c \<noteq> 0" and d: "diff_double r c = 10000"
  shows "calculate_round_probability_double r (Num c) = 1 / 2 - 1 / 2 ^ 54"
proof -
  have "calculate_round_probability_double r (Num c) =
          max (double 0.01) (min (double 0.95)
            (double (double 0.95 - double (double 0.000045 * 10000))))"
    unfolding calculate_round_probability_double_Num [OF c] d
    by (simp only: order_refl if_True)
  also have "\<dots> = max (5764607523034235 / 2 ^ 59)
                     (min (8556839292003942 / 2 ^ 53) (1 / 2 - 1 / 2 ^ 54))"
    by (simp only: double_000045 double_product_10000 double_095 double_difference_10000 double_001)
  also have "\<dots> = 1 / 2 - 1 / 2 ^ 54" by simp
  finally show ?thesis .
qed

lemma calculate_round_probability_double_above_40000:
  assumes c: "c \<noteq> 0" and d: "40000 < diff_double r c"
  shows "calculate_round_probability_double r (Num c) = double 0.01"
proof -
  have n: "\<not> diff_double r c \<le> 10000" "\<not> diff_double r c \<le> 20000"
    "\<not> diff_double r c \<le> 40000"
    using d by simp_all
  have "calculate_round_probability_double r (Num c) =
          max (double 0.01) (min (double 0.95) (double 0.01))"
    unfolding calculate_round_probability_double_Num [OF c]
    by (simp only: n if_False)
  also have "\<dots> = max (5764607523034235 / 2 ^ 59)
                     (min (8556839292003942 / 2 ^ 53) (5764607523034235 / 2 ^ 59))"
    by (simp only: double_095 double_001)
  also have "\<dots> = 5764607523034235 / 2 ^ 59" by simp
  finally show ?thesis by (simp only: double_001)
qed

lemma round_half_even_of_int: "round_half_even (real_of_int m) = m"
  by (simp add: round_half_even_def)

lemma double_of_int:
  assumes "\<bar>n\<bar> < 2 ^ 53"
  shows "double (real_of_int n) = real_of_int n"
proof (cases "n = 0")
  case True
  then show ?thesis by (simp add: double_zero)
next
  case False
  define x where "x = real_of_int n"
  have x1: "1 \<le> \<bar>x\<bar>" using False by (simp add: x_def)
  have x2: "\<bar>x\<bar> < 2 ^ 53" using assms unfolding x_def
    by (metis of_int_abs of_int_less_numeral_power_cancel_iff)
  define e where "e = \<lfloor>log 2 \<bar>x\<bar>\<rfloor>"
  have "0 \<le> log 2 \<bar>x\<bar>" using x1 by simp
  then have e0: "0 \<le> e" by (simp add: e_def)
  have "log 2 \<bar>x\<bar> < 53"
    using x1 x2 by (simp add: log_less_iff powr_realpow [symmetric])
  then have e52: "e \<le> 52" unfolding e_def by (simp add: floor_le_iff)
  have de: "double_exponent x = e" using e0 by (simp add: double_exponent_def e_def)
  define j where "j = nat (52 - e)"
  have "real_of_int (double_exponent x - 52) = - real j" using de e52 by (simp add: j_def)
  then have ulp: "2 powr real_of_int (double_exponent x - 52) = 1 / 2 ^ j"
    by (simp only: powr_minus_nat)
  have "x / (1 / 2 ^ j) = real_of_int (n * 2 ^ j)" by (simp add: x_def)
  then have r: "round_half_even (x / (1 / 2 ^ j)) = n * 2 ^ j"
    by (simp only: round_half_even_of_int)
  have nz: "x \<noteq> 0" using x1 by auto
  have "double x = real_of_int (n * 2 ^ j) * (1 / 2 ^ j)"
    unfolding double_def Let_def ulp r using nz by simp
  then show ?thesis by (simp add: x_def)
qed

lemma diff_double_exact:
  assumes "\<bar>r\<bar> < 2 ^ 53" "\<bar>r - k\<bar> < 2 ^ 53"
  shows "diff_double r (real_of_int k) = \<bar>real_of_int r - real_of_int k\<bar>"
proof -
  have "double (real_of_int r) - real_of_int k = real_of_int (r - k)"
    by (simp add: double_of_int [OF assms(1)])
  then show ?thesis
    unfolding diff_double_def by (simp only: double_of_int [OF assms(2)])
qed

text \<open>
  C1, as the specification states it, fails at rank difference 10,000: in double
  arithmetic 0.95 - 0.000045 * 10000 is not 0.50 but the double just below it.
\<close>

theorem C1_segment_values_counterexample:
  "calculate_round_probability_double 25000 (Num 35000) \<noteq> 0.50"
  using calculate_round_probability_double_at_10000 [of 35000 25000] diff_double_exact [of 25000 35000]
  by simp

text \<open>
  C1, amended. For a positive, non-NaN closing rank the estimate is the double 0.95 at
  rank difference 0, the double 0.01 at every rank difference above 40,000, and at rank
  difference 10,000 it is 0.49999999999999994, that is \<open>1/2 - 2\<^sup>-\<^sup>5\<^sup>4\<close>, one unit in
  the last place below 0.50. The rank difference is the one the function computes; for
  integer ranks below \<open>2\<^sup>5\<^sup>3\<close> it is the exact absolute difference.
\<close>

theorem C1_segment_values_double:
  "0 < c \<Longrightarrow>
     (diff_double r c = 0 \<longrightarrow> calculate_round_probability_double r (Num c) = double 0.95) \<and>
     (diff_double r c = 10000 \<longrightarrow>
        calculate_round_probability_double r (Num c) = 1 / 2 - 1 / 2 ^ 54) \<and>
     (40000 < diff_double r c \<longrightarrow> calculate_round_probability_double r (Num c) = double 0.01) \<and>
     (\<bar>r\<bar> < 2 ^ 53 \<and> \<bar>r - k\<bar> < 2 ^ 53 \<longrightarrow>
        diff_double r (real_of_int k) = \<bar>real_of_int r - real_of_int k\<bar>)"
  using calculate_round_probability_double_at_0 [of c r]
    calculate_round_probability_double_at_10000 [of c r]
    calculate_round_probability_double_above_40000 [of c r]
    diff_double_exact [of r k]
  by simp

text \<open>The three scenarios of the specification: ranks 25,000 against 25,000, 35,000 and 70,000.\<close>

theorem C1_segment_values_double_witness:
  "calculate_round_probability_double 25000 (Num 25000) = double 0.95 \<and>
   calculate_round_probability_double 25000 (Num 35000) = 1 / 2 - 1 / 2 ^ 54 \<and>
   calculate_round_probability_double 25000 (Num 70000) = double 0.01"
  using C1_segment_values_double [of 25000 25000] C1_segment_values_double [of 35000 25000]
    C1_segment_values_double [of 70000 25000]
    diff_double_exact [of 25000 25000] diff_double_exact [of 25000 35000]
    diff_double_exact [of 25000 70000]
  by simp

text \<open>
  C3. For a fixed positive closing rank the estimate does not increase when the absolute
  rank difference grows.
\<close>

theorem C3_monotone_in_difference:
  "0 < c \<Longrightarrow> rank_diff r1 c \<le> rank_diff r2 c \<Longrightarrow>
     calculate_round_probability r2 (Num c) \<le> calculate_round_probability r1 (Num c)"
  using piecewise_decay_antimono [of "rank_diff r1 c" "rank_diff r2 c"]
  by (simp add: calculate_round_probability_decay max_def min_def)

theorem C3_monotone_in_difference_witness:
  "(0::real) < 30000 \<and> rank_diff 25000 30000 \<le> rank_diff 45000 30000 \<and>
   calculate_round_probability 45000 (Num 30000) \<le> calculate_round_probability 25000 (Num 30000)"
  using C3_monotone_in_difference [of 30000 25000 45000]
  by (simp add: rank_diff_def)

section \<open>Properties of the distribution-based estimate\<close>

lemma sigmoid_bounds: "0 < 1 / (1 + exp (z::real))" "1 / (1 + exp (z::real)) < 1"
  by (simp_all add: add_pos_pos)

lemma admission_probability_unit_interval:
  "0 \<le> admission_probability r college \<and> admission_probability r college \<le> 1"
  using sigmoid_bounds
  by (auto simp: admission_probability_def Let_def less_imp_le
      split: option.splits pyfloat.splits)

text \<open>
  C2, as the specification states it, fails: the piecewise estimate is 0.0 for a closing
  rank of zero, and the distribution-based estimate is 1.0 on its zero-deviation branch.
\<close>

theorem C2_bounds_counterexample:
  "\<not> (0.01 \<le> calculate_round_probability 25000 (Num 0)) \<and>
   \<not> (admission_probability 100
        [''closing_rank_mean'' \<mapsto> Num 100, ''closing_rank_std'' \<mapsto> Num 0] \<le> 0.95)"
  by (simp add: calculate_round_probability_def admission_probability_def)

text \<open>
  C2, amended. The piecewise estimate lies in [0.01, 0.95] for every closing rank that is
  a non-zero number, and is 0.0 for a NaN or zero closing rank. The distribution-based
  estimate is not clamped: it lies in [0, 1]; on its branch for a deviation that is not
  positive (zero, negative or NaN, or the 10% default of a mean that is not positive) it
  is exactly 1.0 when the rank is at most the mean and exactly 0.0 otherwise; and it is
  0.5 for a row without a mean.
\<close>

theorem C2_bounds_amended:
  "(c \<noteq> 0 \<longrightarrow> 0.01 \<le> calculate_round_probability r (Num c) \<and>
               calculate_round_probability r (Num c) \<le> 0.95) \<and>
   calculate_round_probability r NaN = 0 \<and>
   calculate_round_probability r (Num 0) = 0 \<and>
   0 \<le> admission_probability r college \<and> admission_probability r college \<le> 1 \<and>
   (college ''closing_rank_mean'' = Some (Num m) \<and>
      (college ''closing_rank_std'' = Some NaN \<or>
       (\<exists>s. college ''closing_rank_std'' = Some (Num s) \<and> s \<le> 0) \<or>
       (college ''closing_rank_std'' = None \<and> m \<le> 0)) \<longrightarrow>
      admission_probability r college = (if real_of_int r \<le> m then 1 else 0)) \<and>
   (college ''closing_rank_mean'' = None \<or> college ''closing_rank_mean'' = Some NaN \<longrightarrow>
      admission_probability r college = 0.5)"
proof -
  have binary: "admission_probability r college = (if real_of_int r \<le> m then 1 else 0)"
    if "college ''closing_rank_mean'' = Some (Num m)"
      "college ''closing_rank_std'' = Some NaN \<or>
       (\<exists>s. college ''closing_rank_std'' = Some (Num s) \<and> s \<le> 0) \<or>
       (college ''closing_rank_std'' = None \<and> m \<le> 0)"
    using that by (auto simp: admission_probability_def Let_def mult_le_0_iff)
  have nomean: "admission_probability r college = 0.5"
    if "college ''closing_rank_mean'' = None \<or> college ''closing_rank_mean'' = Some NaN"
    using that by (auto simp: admission_probability_def)
  show ?thesis
    using admission_probability_unit_interval [of r college]
      calculate_round_probability_bounds [of c r] calculate_round_probability_invalid [of r]
      binary nomean
    by blast
qed

theorem C2_bounds_amended_witness:
  "0.01 \<le> calculate_round_probability 25000 (Num 35000) \<and>
   calculate_round_probability 25000 (Num 35000) \<le> 0.95 \<and>
   admission_probability 25000
     [''closing_rank_mean'' \<mapsto> Num 30000, ''closing_rank_std'' \<mapsto> Num 0] = 1 \<and>
   admission_probability 25000 Map.empty = 0.5"
  using C2_bounds_amended
      [of 35000 25000 "[''closing_rank_mean'' \<mapsto> Num 30000, ''closing_rank_std'' \<mapsto> Num 0]"
        30000]
    C2_bounds_amended [of 35000 25000 Map.empty 30000]
  by simp

text \<open>
  The two branches around the deviation: a deviation of exactly 0 gives the binary result,
  and the 10% default applies to a row that has no deviation column at all.
\<close>

lemma admission_probability_zero_std:
  "admission_probability r [''closing_rank_mean'' \<mapsto> Num m, ''closing_rank_std'' \<mapsto> Num 0] =
     (if real_of_int r \<le> m then 1 else 0)"
  by (simp add: admission_probability_def)

lemma admission_probability_missing_std:
  "0 < m \<Longrightarrow> admission_probability r [''closing_rank_mean'' \<mapsto> Num m] =
     1 / (1 + exp ((real_of_int r - m) / (m * 0.1)))"
  by (simp add: admission_probability_def Let_def)

text \<open>
  C5. The rows the estimate reads are never built: the key columns of the aggregate table
  keep their plain names, the merge asks for the names with a trailing underscore, and
  \<^verbatim>\<open>create_college_mappings\<close> raises KeyError whatever the data, also for an offer
  with exactly one historical observation. No deviation is defaulted and no probability
  is returned.
\<close>

theorem C5_mappings_never_built:
  "create_college_mappings merged = Inl KeyError"
  by (simp add: create_college_mappings_def merge_right_on_def rank_stats_columns_def
      flatten_column_def)

section \<open>Properties of the admission probabilities of one offer\<close>

lemma Max_insert_insert:
  fixes a b :: real
  assumes "finite A"
  shows "Max (insert a (insert b A)) = Max (insert (max a b) A)"
proof (cases "A = {}")
  case True
  then show ?thesis by simp
next
  case False
  with assms show ?thesis by (simp add: max.assoc)
qed

lemma max_from_Max: "max_from b xs = Max (insert b (set xs))"
proof (induction xs arbitrary: b)
  case Nil
  then show ?case by simp
next
  case (Cons x xs)
  have "(if b < x then x else b) = max b x" by (simp add: max_def)
  with Cons show ?case by (simp add: Max_insert_insert del: Max_insert)
qed

lemma max_from_Max_Cons: "max_from p ps = Max (set (p # ps))"
  by (simp add: max_from_Max del: Max_insert)

lemma py_int_total: "notna v \<Longrightarrow> \<exists>n. py_int v = Inr n"
  by (cases v) (simp_all add: notna_def)

lemma calculate_admission_probabilities_empty: "closing_ranks rd = [] \<Longrightarrow> \<exists>res. calculate_admission_probabilities r rd = Inr res \<and> overall_probability res = 0.05 \<and> predicted_closing_rank res = r + 5000"
  by (simp add: calculate_admission_probabilities_def)

lemma overall_probability_unfold:
  assumes "closing_ranks rd \<noteq> []" "calculate_admission_probabilities r rd = Inr res"
  shows "overall_probability res =
           (case map (calculate_round_probability r \<circ> snd) (closing_ranks rd) of
              [] \<Rightarrow> 0.05 | p # ps \<Rightarrow> max_from p ps)"
proof -
  have sc: "snd \<circ> (\<lambda>(k, c). (k, calculate_round_probability r c))
      = calculate_round_probability r \<circ> snd"
    by (auto simp: fun_eq_iff)
  from assms show ?thesis
    by (auto simp: calculate_admission_probabilities_def Let_def sc split: sum.splits)
qed

lemma overall_probability_Max: 
  assumes "closing_ranks rd \<noteq> []" "calculate_admission_probabilities r rd = Inr res"
  shows "overall_probability res = Max (set (map (calculate_round_probability r \<circ> snd) (closing_ranks rd)))"
proof -
  obtain p ps where pps: "map (calculate_round_probability r \<circ> snd) (closing_ranks rd) = p # ps"
    using assms(1) by (cases "closing_ranks rd") auto
  show ?thesis
    unfolding overall_probability_unfold [OF assms] pps
    by (simp add: max_from_Max_Cons del: Max_insert set_simps)
qed

lemma py_int_Inl: "py_int v = Inl e \<longleftrightarrow> v = NaN \<and> e = ValueError"
  by (cases v) auto

lemma np_mean_NaN: "np_mean vs = NaN \<longleftrightarrow> list_ex isna vs"
  by (simp add: np_mean_def)

lemma calculate_admission_probabilities_total:
  assumes "closing_ranks rd \<noteq> []" "list_all (notna \<circ> snd) (closing_ranks rd)"
  shows "\<exists>res. calculate_admission_probabilities r rd = Inr res"
proof (cases "calculate_admission_probabilities r rd")
  case (Inr res)
  then show ?thesis by blast
next
  case (Inl e)
  have nn: "\<not> list_ex isna (map snd (closing_ranks rd))"
    using assms(2) by (auto simp: list_all_iff list_ex_iff notna_def)
  have lk: "map_of (closing_ranks rd) k \<noteq> Some NaN" for k
  proof
    assume "map_of (closing_ranks rd) k = Some NaN"
    from map_of_SomeD [OF this] assms(2) show False
      by (auto simp: list_all_iff notna_def)
  qed
  from Inl assms(1) have False
    by (auto simp: calculate_admission_probabilities_def Let_def py_int_Inl np_mean_NaN nn lk
        split: sum.splits option.splits if_splits list.splits)
  then show ?thesis ..
qed

text \<open>
  C4. With at least one historical closing rank (none of them NaN) the function returns,
  and the overall probability is the maximum of the per-observation values of
  \<open>calculate_round_probability\<close>; with no observation the overall probability is
  exactly 0.05 and the predicted closing rank is the candidate rank plus 5,000.
\<close>

theorem C4_overall_probability:
  "(closing_ranks rd \<noteq> [] \<and> list_all (notna \<circ> snd) (closing_ranks rd) \<longrightarrow>
      (\<exists>res. calculate_admission_probabilities r rd = Inr res \<and>
         overall_probability res =
           Max (set (map (calculate_round_probability r \<circ> snd) (closing_ranks rd))))) \<and>
   (closing_ranks rd = [] \<longrightarrow>
      (\<exists>res. calculate_admission_probabilities r rd = Inr res \<and>
         overall_probability res = 0.05 \<and> predicted_closing_rank res = r + 5000))"
  using calculate_admission_probabilities_total [of rd r] overall_probability_Max [of rd r]
    calculate_admission_probabilities_empty [of rd r]
  by blast

theorem C4_overall_probability_witness:
  "(\<exists>res. calculate_admission_probabilities 25000
            \<lparr>closing_ranks = [(''2023_R1'', Num 35000), (''2023_R2'', Num 25000)],
             probabilities = [], round_info = []\<rparr> = Inr res \<and>
          overall_probability res = 0.95) \<and>
   (\<exists>res. calculate_admission_probabilities 25000
            \<lparr>closing_ranks = [], probabilities = [], round_info = []\<rparr> = Inr res \<and>
          overall_probability res = 0.05 \<and> predicted_closing_rank res = 30000)"
  using C4_overall_probability
      [of "\<lparr>closing_ranks = [(''2023_R1'', Num 35000), (''2023_R2'', Num 25000)],
             probabilities = [], round_info = []\<rparr>" 25000]
    C4_overall_probability [of "\<lparr>closing_ranks = [], probabilities = [], round_info = []\<rparr>" 25000]
  by (simp add: notna_def calculate_round_probability_def)

section \<open>Properties of the cumulative probabilities\<close>


lemma dict_set_fresh: "k \<notin> fst ` set d \<Longrightarrow> dict_set k v d = d @ [(k, v)]"
  by (induction d) auto

lemma round_numbers_set: "n \<in> set (round_numbers d) \<longleftrightarrow> Round n \<in> fst ` set d"
  by (induction d rule: round_numbers.induct) (auto simp: image_iff)

lemma round_numbers_distinct: "distinct (map fst d) \<Longrightarrow> distinct (round_numbers d)"
  by (induction d rule: round_numbers.induct) (auto simp: round_numbers_set)

lemma cumulative_loop_step:
  assumes "map_of rp (Round n) = Some v" "\<And>c. v \<noteq> Cumulative c"
  shows "cumulative_loop rp (n # rest) t cum =
           cumulative_loop rp rest (1 - (1 - t) * (1 - get_probability v))
             (dict_set (Round n) (1 - (1 - t) * (1 - get_probability v)) cum)"
  using assms by (cases v) (auto simp: Let_def)

lemma filter_le_head:
  assumes "sorted (n # rest)" "distinct (n # rest)"
  shows "filter (\<lambda>m. m \<le> n) (n # rest) = [n]"
proof -
  have "\<forall>m\<in>set rest. \<not> m \<le> n" using assms by auto
  then have "filter (\<lambda>m. m \<le> n) rest = []" by (simp add: filter_empty_conv)
  then show ?thesis by simp
qed

lemma cumulative_loop_closed_form:
  fixes ns :: "int list"
  assumes "sorted ns" "distinct ns"
    and "\<And>n. n \<in> set ns \<Longrightarrow> \<exists>v. map_of rp (Round n) = Some v \<and> (\<forall>c. v \<noteq> Cumulative c)"
    and "\<And>n. n \<in> set ns \<Longrightarrow> Round n \<notin> fst ` set cum"
  shows "cumulative_loop rp ns t cum =
           Inr (cum @ map (\<lambda>n. (Round n,
                  1 - (1 - t) * prod_list (map (\<lambda>m. 1 - round_probability rp m)
                                              (filter (\<lambda>m. m \<le> n) ns)))) ns)"
  using assms
proof (induction ns arbitrary: t cum)
  case Nil
  then show ?case by simp
next
  case (Cons n rest)
  obtain v where v: "map_of rp (Round n) = Some v" "\<And>c. v \<noteq> Cumulative c"
    using Cons.prems(3) [of n] by auto
  have pn: "round_probability rp n = get_probability v"
    by (simp add: round_probability_def v)
  define t' where "t' = 1 - (1 - t) * (1 - get_probability v)"
  have fresh: "Round n \<notin> fst ` set cum" using Cons.prems(4) by simp
  have step: "cumulative_loop rp (n # rest) t cum =
                cumulative_loop rp rest t' (cum @ [(Round n, t')])"
    unfolding t'_def using cumulative_loop_step [OF v] dict_set_fresh [OF fresh] by simp
  have fresh': "Round m \<notin> fst ` set (cum @ [(Round n, t')])" if "m \<in> set rest" for m
    using that Cons.prems(2,4) by auto
  have ih: "cumulative_loop rp rest t' (cum @ [(Round n, t')]) =
          Inr ((cum @ [(Round n, t')]) @ map (\<lambda>k. (Round k,
                  1 - (1 - t') * prod_list (map (\<lambda>m. 1 - round_probability rp m)
                                              (filter (\<lambda>m. m \<le> k) rest)))) rest)"
    using Cons.prems by (intro Cons.IH) (auto simp: fresh')
  have head: "1 - (1 - t) * prod_list (map (\<lambda>m. 1 - round_probability rp m)
                                              (filter (\<lambda>m. m \<le> n) (n # rest))) = t'"
    unfolding filter_le_head [OF Cons.prems(1,2)] by (simp add: pn t'_def)
  have tail: "map (\<lambda>k. (Round k,
                  1 - (1 - t') * prod_list (map (\<lambda>m. 1 - round_probability rp m)
                                              (filter (\<lambda>m. m \<le> k) rest)))) rest
            = map (\<lambda>k. (Round k,
                  1 - (1 - t) * prod_list (map (\<lambda>m. 1 - round_probability rp m)
                                              (filter (\<lambda>m. m \<le> k) (n # rest))))) rest"
  proof (rule map_cong [OF refl])
    fix k assume "k \<in> set rest"
    then have "n \<le> k" using Cons.prems(1) by auto
    then show "(Round k, 1 - (1 - t') * prod_list (map (\<lambda>m. 1 - round_probability rp m)
                                              (filter (\<lambda>m. m \<le> k) rest)))
             = (Round k, 1 - (1 - t) * prod_list (map (\<lambda>m. 1 - round_probability rp m)
                                              (filter (\<lambda>m. m \<le> k) (n # rest))))"
      by (simp add: pn t'_def algebra_simps)
  qed
  show ?case unfolding step ih tail
    using head by simp
qed


lemma unit_entries_lookup:
  "unit_entries d \<Longrightarrow> map_of d (Round n) = Some v \<Longrightarrow>
     \<exists>e. v = Entry e \<and> 0 \<le> probability e \<and> probability e \<le> 1"
  by (induction d rule: unit_entries.induct) (auto split: if_splits)

lemma round_numbers_lookup:
  "n \<in> set (round_numbers d) \<Longrightarrow> \<exists>v. map_of d (Round n) = Some v"
  by (cases "map_of d (Round n)") (auto simp: round_numbers_set map_of_eq_None_iff)

lemma round_probability_unit:
  assumes "unit_entries d"
  shows "0 \<le> round_probability d n \<and> round_probability d n \<le> 1"
proof (cases "map_of d (Round n)")
  case None
  then show ?thesis by (simp add: round_probability_def)
next
  case (Some v)
  with unit_entries_lookup [OF assms Some] show ?thesis
    by (auto simp: round_probability_def)
qed

lemma prod_list_unit:
  fixes g :: "int \<Rightarrow> real"
  assumes "\<And>x. 0 \<le> g x \<and> g x \<le> 1"
  shows "0 \<le> prod_list (map g xs) \<and> prod_list (map g xs) \<le> 1"
proof (induction xs)
  case Nil
  then show ?case by simp
next
  case (Cons x xs)
  have "g x * prod_list (map g xs) \<le> 1 * 1"
    using assms [of x] Cons by (intro mult_mono) auto
  with Cons assms [of x] show ?case by simp
qed

lemma prod_list_filter_antimono:
  fixes g :: "int \<Rightarrow> real"
  assumes g: "\<And>x. 0 \<le> g x \<and> g x \<le> 1" and "sorted ns" "n \<le> m"
  shows "prod_list (map g (filter (\<lambda>k. k \<le> m) ns)) \<le> prod_list (map g (filter (\<lambda>k. k \<le> n) ns))"
  using assms(2)
proof (induction ns)
  case Nil
  then show ?case by simp
next
  case (Cons k rest)
  then have ih: "prod_list (map g (filter (\<lambda>k. k \<le> m) rest))
                  \<le> prod_list (map g (filter (\<lambda>k. k \<le> n) rest))"
    by simp
  consider "k \<le> n" | "n < k" "k \<le> m" | "m < k" by linarith
  then show ?case
  proof cases
    case 1
    with \<open>n \<le> m\<close> ih g [of k] show ?thesis by (simp add: mult_left_mono)
  next
    case 2
    have "\<forall>j\<in>set rest. \<not> j \<le> n" using Cons.prems 2 by auto
    then have emp: "filter (\<lambda>k. k \<le> n) rest = []" by (simp add: filter_empty_conv)
    have "g k * prod_list (map g (filter (\<lambda>k. k \<le> m) rest)) \<le> 1 * 1"
      using g [of k] prod_list_unit [of g, OF g] by (intro mult_mono) auto
    with 2 emp show ?thesis by simp
  next
    case 3
    with \<open>n \<le> m\<close> ih show ?thesis by simp
  qed
qed

lemma cumulative_by_round_mono:
  assumes "unit_entries d" "n \<le> m"
  shows "cumulative_by_round d n \<le> cumulative_by_round d m"
proof -
  have g: "0 \<le> 1 - round_probability d x \<and> 1 - round_probability d x \<le> 1" for x
    using round_probability_unit [OF assms(1), of x] by simp
  show ?thesis
    unfolding cumulative_by_round_def
    using prod_list_filter_antimono [of "\<lambda>x. 1 - round_probability d x"
        "sort (round_numbers d)" n m, OF g _ assms(2)]
    by simp
qed

lemma cumulative_by_round_unit:
  assumes "unit_entries d"
  shows "0 \<le> cumulative_by_round d n \<and> cumulative_by_round d n \<le> 1"
proof -
  have g: "0 \<le> 1 - round_probability d x \<and> 1 - round_probability d x \<le> 1" for x
    using round_probability_unit [OF assms(1), of x] by simp
  show ?thesis
    unfolding cumulative_by_round_def
    using prod_list_unit [of "\<lambda>x. 1 - round_probability d x", OF g] by simp
qed

lemma sorted_map_mono_on:
  fixes f :: "int \<Rightarrow> real"
  assumes "sorted xs" "\<And>x y. x \<le> y \<Longrightarrow> f x \<le> f y"
  shows "sorted (map f xs)"
  using assms(1) by (induction xs) (auto intro: assms(2))

lemma calculate_cumulative_probabilities_eq:
  assumes "distinct (map fst d)" "unit_entries d"
  shows "calculate_cumulative_probabilities d =
           Inr (map (\<lambda>n. (Round n, cumulative_by_round d n)) (sort (round_numbers d)))"
proof -
  have look: "\<exists>v. map_of d (Round n) = Some v \<and> (\<forall>c. v \<noteq> Cumulative c)"
    if "n \<in> set (sort (round_numbers d))" for n
  proof -
    from that obtain v where v: "map_of d (Round n) = Some v"
      using round_numbers_lookup [of n d] by auto
    with unit_entries_lookup [OF assms(2) v] show ?thesis by auto
  qed
  have "cumulative_loop d (sort (round_numbers d)) 0 [] =
          Inr ([] @ map (\<lambda>n. (Round n,
                  1 - (1 - 0) * prod_list (map (\<lambda>m. 1 - round_probability d m)
                       (filter (\<lambda>m. m \<le> n) (sort (round_numbers d)))))) (sort (round_numbers d)))"
    using round_numbers_distinct [OF assms(1)] look
    by (intro cumulative_loop_closed_form) auto
  then show ?thesis
    by (simp add: calculate_cumulative_probabilities_def cumulative_by_round_def)
qed

text \<open>
  C6. For a round-probability dictionary whose per-round probabilities lie in [0, 1], the
  cumulative value stored for round \<open>n\<close> is \<open>1 - \<Prod>(1 - p\<^sub>i)\<close> over the rounds up to
  \<open>n\<close>; the values, listed by ascending round number, are non-decreasing and lie in [0, 1].
\<close>

theorem C6_cumulative_probabilities:
  assumes "distinct (map fst d)" "unit_entries d"
  shows "\<exists>cum. calculate_cumulative_probabilities d = Inr cum \<and>
           cum = map (\<lambda>n. (Round n, cumulative_by_round d n)) (sort (round_numbers d)) \<and>
           sorted (map snd cum) \<and>
           list_all (\<lambda>c. 0 \<le> c \<and> c \<le> 1) (map snd cum)"
proof -
  have s: "sorted (map (cumulative_by_round d) (sort (round_numbers d)))"
    by (rule sorted_map_mono_on) (auto intro: cumulative_by_round_mono [OF assms(2)])
  have b: "list_all (\<lambda>c. 0 \<le> c \<and> c \<le> 1) (map (cumulative_by_round d) (sort (round_numbers d)))"
    using cumulative_by_round_unit [OF assms(2)] by (simp add: list_all_iff)
  show ?thesis
    using calculate_cumulative_probabilities_eq [OF assms] s b
    by (simp add: comp_def)
qed

theorem C6_cumulative_probabilities_witness:
  "calculate_cumulative_probabilities
     [(Round 2, Entry \<lparr>probability = 0.5, confidence = ''High'', historical_median_rank = 20000,
                         candidate_rank_difference = 0, interpretation_label = ''High''\<rparr>),
      (Round 1, Entry \<lparr>probability = 0.2, confidence = ''Low'', historical_median_rank = 18000,
                         candidate_rank_difference = 2000, interpretation_label = ''Low''\<rparr>),
      (Other ''optimal_round'', Cumulative [])]
   = Inr [(Round 1, 0.2), (Round 2, 0.6)]"
  using C6_cumulative_probabilities
    [of "[(Round 2, Entry \<lparr>probability = 0.5, confidence = ''High'', historical_median_rank = 20000,
                         candidate_rank_difference = 0, interpretation_label = ''High''\<rparr>),
      (Round 1, Entry \<lparr>probability = 0.2, confidence = ''Low'', historical_median_rank = 18000,
                         candidate_rank_difference = 2000, interpretation_label = ''Low''\<rparr>),
      (Other ''optimal_round'', Cumulative [])]"]
  by (simp add: cumulative_by_round_def round_probability_def)

section \<open>Properties of the confidence estimate\<close>


lemma map_of_dict_set: "map_of (dict_set k v d) k' = (if k' = k then Some v else map_of d k')"
  by (induction d) auto

lemma confidence_intervals_loop_other:
  "Round n \<notin> fst ` set d \<Longrightarrow>
     map_of (confidence_intervals_loop d acc) (Round n) = map_of acc (Round n)"
  by (induction d acc rule: confidence_intervals_loop.induct) (auto simp: map_of_dict_set)

lemma confidence_intervals_loop_lookup:
  "distinct (map fst d) \<Longrightarrow> (Round n, v) \<in> set d \<Longrightarrow>
     map_of (confidence_intervals_loop d acc) (Round n) = Some (confidence_interval v)"
proof (induction d acc rule: confidence_intervals_loop.induct)
  case (1 acc)
  then show ?case by simp
next
  case (2 m data d acc)
  show ?case
  proof (cases "m = n")
    case True
    with 2 have "v = data" "Round n \<notin> fst ` set d" by (auto simp: image_iff)
    with True show ?thesis
      by (simp add: confidence_intervals_loop_other map_of_dict_set)
  next
    case False
    with 2 show ?thesis by auto
  qed
next
  case (3 uu data d acc)
  then show ?case by auto
qed

lemma calculate_prediction_confidence_cases:
  assumes "mean_closing_rank rd = Some m" "0 < m" "std_closing_rank rd = Some s"
    "years_with_data rd = Some y"
  shows "calculate_prediction_confidence rd =
           (if 2 \<le> y \<and> s / m < 0.2 then ''High''
            else if 1 \<le> y \<and> s / m < 0.4 then ''Medium'' else ''Low'')"
  using assms by (simp add: calculate_prediction_confidence_def)

lemma confidence_interval_fields:
  "margin_of_error (confidence_interval v) =
     (if get_confidence ''Low'' v = ''High'' then 0.05
      else if get_confidence ''Low'' v = ''Medium'' then 0.10 else 0.15) \<and>
   lower_bound (confidence_interval v) =
     max 0 (get_probability v - margin_of_error (confidence_interval v)) \<and>
   upper_bound (confidence_interval v) =
     min 1 (get_probability v + margin_of_error (confidence_interval v)) \<and>
   confidence_level (confidence_interval v) = get_confidence ''Low'' v"
  by (simp add: confidence_interval_def Let_def)

text \<open>
  C8. For round statistics with a positive mean, the confidence is High exactly when at
  least 2 years of data exist and std/mean is below 0.2, Medium exactly when High does
  not apply, at least 1 year exists and std/mean is below 0.4, and Low otherwise; the
  interval stored for a round uses margin 0.05 for High, 0.10 for Medium and 0.15
  otherwise, around the round's probability, with the bounds clamped to [0, 1].
\<close>

theorem C8_confidence_and_margin:
  assumes "mean_closing_rank rd = Some m" "0 < m" "std_closing_rank rd = Some s"
    "years_with_data rd = Some y"
    and "distinct (map fst round_probs)" "(Round n, v) \<in> set round_probs"
  shows "(calculate_prediction_confidence rd = ''High'' \<longleftrightarrow> 2 \<le> y \<and> s / m < 0.2) \<and>
         (calculate_prediction_confidence rd = ''Medium'' \<longleftrightarrow>
            \<not> (2 \<le> y \<and> s / m < 0.2) \<and> 1 \<le> y \<and> s / m < 0.4) \<and>
         (calculate_prediction_confidence rd = ''Low'' \<longleftrightarrow>
            \<not> (2 \<le> y \<and> s / m < 0.2) \<and> \<not> (1 \<le> y \<and> s / m < 0.4)) \<and>
         (\<exists>ci. map_of (calculate_confidence_intervals round_probs) (Round n) = Some ci \<and>
            margin_of_error ci =
              (if get_confidence ''Low'' v = ''High'' then 0.05
               else if get_confidence ''Low'' v = ''Medium'' then 0.10 else 0.15) \<and>
            lower_bound ci = max 0 (get_probability v - margin_of_error ci) \<and>
            upper_bound ci = min 1 (get_probability v + margin_of_error ci) \<and>
            0 \<le> lower_bound ci \<and> upper_bound ci \<le> 1)"
proof -
  have a: "calculate_prediction_confidence rd =
           (if 2 \<le> y \<and> s / m < 0.2 then ''High''
            else if 1 \<le> y \<and> s / m < 0.4 then ''Medium'' else ''Low'')"
    by (rule calculate_prediction_confidence_cases [OF assms(1-4)])
  have b: "map_of (calculate_confidence_intervals round_probs) (Round n)
             = Some (confidence_interval v)"
    unfolding calculate_confidence_intervals_def
    by (rule confidence_intervals_loop_lookup [OF assms(5,6)])
  have c: "0 \<le> lower_bound (confidence_interval v) \<and> upper_bound (confidence_interval v) \<le> 1"
    using confidence_interval_fields [of v] by simp
  show ?thesis
    unfolding a using b c confidence_interval_fields [of v] by auto
qed

theorem C8_confidence_and_margin_witness:
  "calculate_prediction_confidence
     \<lparr>historical_closing_ranks = [20000, 22000], mean_closing_rank = Some 21000,
      median_closing_rank = Some 21000, std_closing_rank = Some 1000,
      min_closing_rank = 20000, max_closing_rank = 22000, years_with_data = Some 2,
      success_probability = Some 0.25\<rparr> = ''High'' \<and>
   (\<exists>ci. map_of (calculate_confidence_intervals
                   [(Round 1, Entry \<lparr>probability = 0.97, confidence = ''High'',
                       historical_median_rank = 21000, candidate_rank_difference = 0,
                       interpretation_label = ''Very High''\<rparr>)]) (Round 1) = Some ci \<and>
          margin_of_error ci = 0.05 \<and> lower_bound ci = 0.92 \<and> upper_bound ci = 1)"
  using C8_confidence_and_margin
    [of "\<lparr>historical_closing_ranks = [20000, 22000], mean_closing_rank = Some 21000,
      median_closing_rank = Some 21000, std_closing_rank = Some 1000,
      min_closing_rank = 20000, max_closing_rank = 22000, years_with_data = Some 2,
      success_probability = Some 0.25\<rparr>" 21000 1000 2
      "[(Round 1, Entry \<lparr>probability = 0.97, confidence = ''High'',
                       historical_median_rank = 21000, candidate_rank_difference = 0,
                       interpretation_label = ''Very High''\<rparr>)]" 1
      "Entry \<lparr>probability = 0.97, confidence = ''High'',
                       historical_median_rank = 21000, candidate_rank_difference = 0,
                       interpretation_label = ''Very High''\<rparr>"]
  by (simp add: calculate_confidence_intervals_def confidence_interval_def)

section \<open>Properties of the counselling strategy\<close>


lemma priority_loop_take:
  "length acc \<le> 3 \<Longrightarrow>
     priority_loop thr xs acc =
       acc @ take (3 - length acc) (map priority_entry (filter (\<lambda>x. thr \<le> fst (snd x)) xs))"
  by (induction xs arbitrary: acc) (auto simp: take_Cons')

lemma backup_loop_take:
  "length acc \<le> 2 \<Longrightarrow>
     backup_loop thr xs acc =
       acc @ take (2 - length acc)
               (map backup_entry (filter (\<lambda>x. 0.1 \<le> fst (snd x) \<and> fst (snd x) < thr) xs))"
  by (induction xs arbitrary: acc) (auto simp: take_Cons')

lemma sort_by_probability_head:
  assumes "sort_by_probability rd = best # rest"
  shows "fst (snd best) = Max (set (map (fst \<circ> snd) rd))"
proof (rule Max_eqI [symmetric])
  show "finite (set (map (fst \<circ> snd) rd))" by simp
  have "sorted (map (\<lambda>x. - fst (snd x)) (sort_key (\<lambda>x. - fst (snd x)) rd))"
    by (rule sorted_sort_key)
  then have s: "sorted (map (\<lambda>x. - fst (snd x)) (best # rest))"
    unfolding assms [unfolded sort_by_probability_def] .
  have st: "set (best # rest) = set rd"
    using assms [symmetric] by (simp add: sort_by_probability_def)
  show "y \<le> fst (snd best)" if "y \<in> set (map (fst \<circ> snd) rd)" for y
  proof -
    from that obtain x where x: "x \<in> set (best # rest)" "y = fst (snd x)"
      using st by auto
    then show ?thesis using s by auto
  qed
  show "fst (snd best) \<in> set (map (fst \<circ> snd) rd)"
    using st by force
qed

lemma sort_by_probability_descending:
  "sorted_wrt (\<lambda>x y. fst (snd x) \<ge> fst (snd y)) (sort_by_probability rd)"
proof -
  have "sorted (map (\<lambda>x. - fst (snd x)) (sort_by_probability rd))"
    by (simp add: sort_by_probability_def)
  then show ?thesis
    by (simp add: sorted_wrt_map)
qed

text \<open>
  C9. For a non-empty set of rounds with best probability \<open>bestP\<close>, the priority group is
  the first 3, in descending order of probability, of the rounds with
  \<open>p \<ge> max 0.3 (bestP * 0.5)\<close>; the backup group is the first 2 of the rounds with
  \<open>0.1 \<le> p\<close> below that threshold; and the approach is labelled Aggressive when
  \<open>bestP \<ge> 0.7\<close>, Balanced when \<open>0.4 \<le> bestP < 0.7\<close> and Conservative otherwise.
\<close>

theorem C9_strategy_groups:
  assumes "strategy_round_data round_probs \<noteq> []"
  shows "priority_rounds (generate_counseling_strategy round_probs) =
           map priority_entry
             (take 3 (filter (\<lambda>x. priority_threshold_of round_probs \<le> fst (snd x))
                        (sort_by_probability (strategy_round_data round_probs)))) \<and>
         backup_options (generate_counseling_strategy round_probs) =
           map backup_entry
             (take 2 (filter (\<lambda>x. 0.1 \<le> fst (snd x) \<and>
                                  fst (snd x) < priority_threshold_of round_probs)
                        (sort_by_probability (strategy_round_data round_probs)))) \<and>
         sorted_wrt (\<lambda>x y. fst (snd x) \<ge> fst (snd y))
           (sort_by_probability (strategy_round_data round_probs)) \<and>
         mset (sort_by_probability (strategy_round_data round_probs)) =
           mset (strategy_round_data round_probs) \<and>
         recommended_approach (generate_counseling_strategy round_probs) =
           (if best_probability round_probs \<ge> 0.7
            then ''Aggressive - Focus on preferred choices''
            else if best_probability round_probs \<ge> 0.4
            then ''Balanced - Mix of preferred and safe choices''
            else ''Conservative - Focus on safety options'')"
proof -
  define rd where "rd = sort_by_probability (strategy_round_data round_probs)"
  have "length rd = length (strategy_round_data round_probs)"
    by (simp add: rd_def sort_by_probability_def)
  with assms have "rd \<noteq> []" by auto
  then obtain best rest where br: "rd = best # rest" by (cases rd) auto
  have bp: "fst (snd best) = best_probability round_probs"
    using sort_by_probability_head [OF br [unfolded rd_def]]
    by (simp add: best_probability_def)
  have m: "mset rd = mset (strategy_round_data round_probs)"
    by (simp add: rd_def sort_by_probability_def)
  show ?thesis
    using sort_by_probability_descending [of "strategy_round_data round_probs"] m
    unfolding generate_counseling_strategy_def Let_def rd_def [symmetric] br list.case bp
      priority_threshold_of_def [symmetric]
    by (simp add: priority_loop_take backup_loop_take take_map rd_def br [symmetric])
qed

theorem C9_strategy_groups_witness:
  "map se_round (priority_rounds (generate_counseling_strategy
     [(Round 1, Entry \<lparr>probability = 0.45, confidence = ''Medium'',
        historical_median_rank = 20000, candidate_rank_difference = 0,
        interpretation_label = ''Medium''\<rparr>),
      (Round 2, Entry \<lparr>probability = 0.8, confidence = ''High'',
        historical_median_rank = 20000, candidate_rank_difference = 0,
        interpretation_label = ''High''\<rparr>),
      (Round 3, Entry \<lparr>probability = 0.5, confidence = ''High'',
        historical_median_rank = 20000, candidate_rank_difference = 0,
        interpretation_label = ''High''\<rparr>),
      (Round 4, Entry \<lparr>probability = 0.41, confidence = ''Low'',
        historical_median_rank = 20000, candidate_rank_difference = 0,
        interpretation_label = ''Low''\<rparr>),
      (Round 5, Entry \<lparr>probability = 0.2, confidence = ''Low'',
        historical_median_rank = 20000, candidate_rank_difference = 0,
        interpretation_label = ''Low''\<rparr>),
      (Other ''cumulative_probabilities'', Cumulative [])])) = [2, 3, 1] \<and>
   map se_round (backup_options (generate_counseling_strategy
     [(Round 1, Entry \<lparr>probability = 0.45, confidence = ''Medium'',
        historical_median_rank = 20000, candidate_rank_difference = 0,
        interpretation_label = ''Medium''\<rparr>),
      (Round 2, Entry \<lparr>probability = 0.8, confidence = ''High'',
        historical_median_rank = 20000, candidate_rank_difference = 0,
        interpretation_label = ''High''\<rparr>),
      (Round 3, Entry \<lparr>probability = 0.5, confidence = ''High'',
        historical_median_rank = 20000, candidate_rank_difference = 0,
        interpretation_label = ''High''\<rparr>),
      (Round 4, Entry \<lparr>probability = 0.41, confidence = ''Low'',
        historical_median_rank = 20000, candidate_rank_difference = 0,
        interpretation_label = ''Low''\<rparr>),
      (Round 5, Entry \<lparr>probability = 0.2, confidence = ''Low'',
        historical_median_rank = 20000, candidate_rank_difference = 0,
        interpretation_label = ''Low''\<rparr>),
      (Other ''cumulative_probabilities'', Cumulative [])])) = [5] \<and>
   recommended_approach (generate_counseling_strategy
     [(Round 1, Entry \<lparr>probability = 0.45, confidence = ''Medium'',
        historical_median_rank = 20000, candidate_rank_difference = 0,
        interpretation_label = ''Medium''\<rparr>),
      (Round 2, Entry \<lparr>probability = 0.8, confidence = ''High'',
        historical_median_rank = 20000, candidate_rank_difference = 0,
        interpretation_label = ''High''\<rparr>),
      (Round 3, Entry \<lparr>probability = 0.5, confidence = ''High'',
        historical_median_rank = 20000, candidate_rank_difference = 0,
        interpretation_label = ''High''\<rparr>),
      (Round 4, Entry \<lparr>probability = 0.41, confidence = ''Low'',
        historical_median_rank = 20000, candidate_rank_difference = 0,
        interpretation_label = ''Low''\<rparr>),
      (Round 5, Entry \<lparr>probability = 0.2, confidence = ''Low'',
        historical_median_rank = 20000, candidate_rank_difference = 0,
        interpretation_label = ''Low''\<rparr>),
      (Other ''cumulative_probabilities'', Cumulative [])]) = ''Aggressive - Focus on preferred choices''"
  using C9_strategy_groups
    [of "[(Round 1, Entry \<lparr>probability = 0.45, confidence = ''Medium'',
        historical_median_rank = 20000, candidate_rank_difference = 0,
        interpretation_label = ''Medium''\<rparr>),
      (Round 2, Entry \<lparr>probability = 0.8, confidence = ''High'',
        historical_median_rank = 20000, candidate_rank_difference = 0,
        interpretation_label = ''High''\<rparr>),
      (Round 3, Entry \<lparr>probability = 0.5, confidence = ''High'',
        historical_median_rank = 20000, candidate_rank_difference = 0,
        interpretation_label = ''High''\<rparr>),
      (Round 4, Entry \<lparr>probability = 0.41, confidence = ''Low'',
        historical_median_rank = 20000, candidate_rank_difference = 0,
        interpretation_label = ''Low''\<rparr>),
      (Round 5, Entry \<lparr>probability = 0.2, confidence = ''Low'',
        historical_median_rank = 20000, candidate_rank_difference = 0,
        interpretation_label = ''Low''\<rparr>),
      (Other ''cumulative_probabilities'', Cumulative [])]"]
  by (simp add: priority_threshold_of_def best_probability_def sort_by_probability_def
      priority_entry_def backup_entry_def comp_def)

section \<open>Properties of the optimal round\<close>

lemma optimal_loop_Round:
  "optimal_loop ((Round n, v) # d) (bp, br) =
     (if bp < get_probability v then optimal_loop d (get_probability v, Some n)
      else optimal_loop d (bp, br))"
  by simp

lemma optimal_loop_max:
  "optimal_loop d (bp, br) = (bp', br') \<Longrightarrow>
     bp \<le> bp' \<and> (\<forall>n v. (Round n, v) \<in> set d \<longrightarrow> get_probability v \<le> bp')"
proof (induction d arbitrary: bp br)
  case Nil
  then show ?case by simp
next
  case (Cons a d)
  obtain k v where a: "a = (k, v)" by (cases a)
  show ?case
  proof (cases k)
    case (Round n)
    show ?thesis
    proof (cases "bp < get_probability v")
      case True
      with Cons.prems a Round
      have "optimal_loop d (get_probability v, Some n) = (bp', br')" by simp
      from Cons.IH [OF this] True a Round show ?thesis by auto
    next
      case False
      with Cons.prems a Round have "optimal_loop d (bp, br) = (bp', br')" by simp
      from Cons.IH [OF this] False a Round show ?thesis by auto
    qed
  next
    case (Other s)
    with Cons.prems a have "optimal_loop d (bp, br) = (bp', br')" by simp
    from Cons.IH [OF this] a Other show ?thesis by auto
  qed
qed

lemma optimal_loop_achieved:
  "optimal_loop d (bp, br) = (bp', br') \<Longrightarrow>
     (bp' = bp \<and> br' = br) \<or>
     (bp < bp' \<and> (\<exists>n v. br' = Some n \<and> (Round n, v) \<in> set d \<and> get_probability v = bp'))"
proof (induction d arbitrary: bp br)
  case Nil
  then show ?case by simp
next
  case (Cons a d)
  obtain k v where a: "a = (k, v)" by (cases a)
  show ?case
  proof (cases k)
    case (Round n)
    show ?thesis
    proof (cases "bp < get_probability v")
      case True
      with Cons.prems a Round
      have "optimal_loop d (get_probability v, Some n) = (bp', br')" by simp
      from Cons.IH [OF this] True a Round show ?thesis by auto
    next
      case False
      with Cons.prems a Round have "optimal_loop d (bp, br) = (bp', br')" by simp
      from Cons.IH [OF this] False a Round show ?thesis by auto
    qed
  next
    case (Other s)
    with Cons.prems a have "optimal_loop d (bp, br) = (bp', br')" by simp
    from Cons.IH [OF this] a Other show ?thesis by auto
  qed
qed

lemma optimal_loop_earliest:
  "sorted_wrt (<) (round_numbers d) \<Longrightarrow> optimal_loop d (bp, br) = (bp', Some n') \<Longrightarrow>
     bp < bp' \<Longrightarrow> (Round m, w) \<in> set d \<Longrightarrow> get_probability w = bp' \<Longrightarrow> n' \<le> m"
proof (induction d arbitrary: bp br)
  case Nil
  then show ?case by simp
next
  case (Cons a d)
  obtain k v where a: "a = (k, v)" by (cases a)
  show ?case
  proof (cases k)
    case (Round n)
    have sd: "sorted_wrt (<) (round_numbers d)" and lt: "\<forall>j\<in>set (round_numbers d). n < j"
      using Cons.prems(1) a Round by auto
    show ?thesis
    proof (cases "bp < get_probability v")
      case True
      with Cons.prems a Round
      have ol: "optimal_loop d (get_probability v, Some n) = (bp', Some n')" by simp
      from optimal_loop_achieved [OF ol]
      consider "bp' = get_probability v" "n' = n"
        | "get_probability v < bp'" by auto
      then show ?thesis
      proof cases
        case 1
        show ?thesis
        proof (cases "(Round m, w) \<in> set d")
          case True
          then have "m \<in> set (round_numbers d)"
            by (force simp: round_numbers_set)
          with lt 1 show ?thesis by auto
        next
          case False
          with Cons.prems(4) a Round 1 show ?thesis by auto
        qed
      next
        case 2
        with Cons.prems(4,5) a Round have "(Round m, w) \<in> set d" by auto
        from Cons.IH [OF sd ol 2 this Cons.prems(5)] show ?thesis .
      qed
    next
      case False
      with Cons.prems a Round have ol: "optimal_loop d (bp, br) = (bp', Some n')" by simp
      from False Cons.prems(3,4,5) a Round have "(Round m, w) \<in> set d" by auto
      from Cons.IH [OF sd ol Cons.prems(3) this Cons.prems(5)] show ?thesis .
    qed
  next
    case (Other s)
    with Cons.prems a have ol: "optimal_loop d (bp, br) = (bp', Some n')"
      and sd: "sorted_wrt (<) (round_numbers d)" and "(Round m, w) \<in> set d" by auto
    from Cons.IH [OF sd ol Cons.prems(3) this(3) Cons.prems(5)] show ?thesis .
  qed
qed

lemma round_probabilities_loop_rounds:
  assumes "distinct ns" "\<And>n. n \<in> set ns \<Longrightarrow> Round n \<notin> fst ` set acc"
  shows "round_probabilities_loop ex pred
           (map (\<lambda>n. (Round n, Stats (round_statistics air (f n)))) ns @ [(Other s, NoStats)]) acc
         = acc @ map (\<lambda>n. (Round n, Entry (make_round_entry ex pred (round_statistics air (f n))
                                (calculate_success_probability air (f n))))) ns"
  using assms
proof (induction ns arbitrary: acc)
  case Nil
  then show ?case by simp
next
  case (Cons n ns)
  define e where "e = Entry (make_round_entry ex pred (round_statistics air (f n))
                                (calculate_success_probability air (f n)))"
  have fresh: "Round n \<notin> fst ` set acc" using Cons.prems(2) by simp
  have fresh': "Round m \<notin> fst ` set (acc @ [(Round n, e)])" if "m \<in> set ns" for m
    using that Cons.prems by auto
  have "round_probabilities_loop ex pred
           (map (\<lambda>n. (Round n, Stats (round_statistics air (f n)))) (n # ns) @ [(Other s, NoStats)]) acc
        = round_probabilities_loop ex pred
           (map (\<lambda>n. (Round n, Stats (round_statistics air (f n)))) ns @ [(Other s, NoStats)])
           (acc @ [(Round n, e)])"
    using dict_set_fresh [OF fresh] by (simp add: round_statistics_def e_def)
  also have "\<dots> = (acc @ [(Round n, e)]) @
       map (\<lambda>n. (Round n, Entry (make_round_entry ex pred (round_statistics air (f n))
                                (calculate_success_probability air (f n))))) ns"
    using Cons.prems(1) fresh' by (intro Cons.IH) auto
  finally show ?case by (simp add: e_def)
qed

lemma round_numbers_map_Round: "round_numbers (map (\<lambda>n. (Round n, g n)) ns) = ns"
  by (induction ns) auto

lemma round_numbers_append_Other: "round_numbers (d @ [(Other s, v)]) = round_numbers d"
  by (induction d rule: round_numbers.induct) auto

lemma unit_entries_map:
  assumes "\<And>n. n \<in> set ns \<Longrightarrow> 0 \<le> probability (g n) \<and> probability (g n) \<le> 1"
  shows "unit_entries (map (\<lambda>n. (Round n, Entry (g n))) ns)"
  using assms by (induction ns) auto


lemma optimal_loop_first:
  "optimal_loop d (bp, br) = (bp', br') \<Longrightarrow> bp < bp' \<Longrightarrow>
     \<exists>pre n v post. d = pre @ (Round n, v) # post \<and> br' = Some n \<and>
        get_probability v = bp' \<and>
        (\<forall>m w. (Round m, w) \<in> set pre \<longrightarrow> get_probability w < bp')"
proof (induction d arbitrary: bp br)
  case Nil
  then show ?case by simp
next
  case (Cons a d)
  obtain k v0 where a: "a = (k, v0)" by (cases a)
  show ?case
  proof (cases k)
    case (Round n0)
    show ?thesis
    proof (cases "bp < get_probability v0")
      case True
      with Cons.prems a Round
      have ol: "optimal_loop d (get_probability v0, Some n0) = (bp', br')" by simp
      from optimal_loop_achieved [OF ol]
      consider "bp' = get_probability v0" "br' = Some n0" | "get_probability v0 < bp'" by auto
      then show ?thesis
      proof cases
        case 1
        have "a # d = [] @ (Round n0, v0) # d" using a Round by simp
        with 1 show ?thesis by (intro exI [of _ "[]"] exI [of _ n0] exI [of _ v0] exI [of _ d]) simp
      next
        case 2
        from Cons.IH [OF ol 2] obtain pre n v post where
          dec: "d = pre @ (Round n, v) # post" "br' = Some n" "get_probability v = bp'"
            "\<forall>m w. (Round m, w) \<in> set pre \<longrightarrow> get_probability w < bp'"
          by blast
        have "a # d = (a # pre) @ (Round n, v) # post" using dec(1) by simp
        moreover have "\<forall>m w. (Round m, w) \<in> set (a # pre) \<longrightarrow> get_probability w < bp'"
          using dec(4) 2 a Round by auto
        ultimately show ?thesis using dec(2,3)
          by (intro exI [of _ "a # pre"] exI [of _ n] exI [of _ v] exI [of _ post]) simp
      qed
    next
      case False
      with Cons.prems a Round have ol: "optimal_loop d (bp, br) = (bp', br')" by simp
      from Cons.IH [OF ol Cons.prems(2)] obtain pre n v post where
        dec: "d = pre @ (Round n, v) # post" "br' = Some n" "get_probability v = bp'"
          "\<forall>m w. (Round m, w) \<in> set pre \<longrightarrow> get_probability w < bp'"
        by blast
      have "a # d = (a # pre) @ (Round n, v) # post" using dec(1) by simp
      moreover have "\<forall>m w. (Round m, w) \<in> set (a # pre) \<longrightarrow> get_probability w < bp'"
        using dec(4) False Cons.prems(2) a Round by auto
      ultimately show ?thesis using dec(2,3)
        by (intro exI [of _ "a # pre"] exI [of _ n] exI [of _ v] exI [of _ post]) simp
    qed
  next
    case (Other s)
    with Cons.prems a have ol: "optimal_loop d (bp, br) = (bp', br')" by simp
    from Cons.IH [OF ol Cons.prems(2)] obtain pre n v post where
      dec: "d = pre @ (Round n, v) # post" "br' = Some n" "get_probability v = bp'"
        "\<forall>m w. (Round m, w) \<in> set pre \<longrightarrow> get_probability w < bp'"
      by blast
    have "a # d = (a # pre) @ (Round n, v) # post" using dec(1) by simp
    moreover have "\<forall>m w. (Round m, w) \<in> set (a # pre) \<longrightarrow> get_probability w < bp'"
      using dec(4) a Other by auto
    ultimately show ?thesis using dec(2,3)
      by (intro exI [of _ "a # pre"] exI [of _ n] exI [of _ v] exI [of _ post]) simp
  qed
qed

lemma determine_optimal_round_none:
  assumes "\<forall>n v. (Round n, v) \<in> set d \<longrightarrow> get_probability v \<le> 0"
  shows "opt_round (determine_optimal_round d) = None"
proof -
  obtain bp' br' where ol: "optimal_loop d (0, None) = (bp', br')"
    by (cases "optimal_loop d (0, None)")
  from optimal_loop_achieved [OF ol] assms have "br' = None" by force
  with ol show ?thesis by (simp add: determine_optimal_round_def)
qed

lemma determine_optimal_round_first:
  assumes "(Round k, v0) \<in> set d" "0 < get_probability v0"
  shows "\<exists>pre n v post. d = pre @ (Round n, v) # post \<and>
           opt_round (determine_optimal_round d) = Some n \<and>
           opt_probability (determine_optimal_round d) = get_probability v \<and>
           (\<forall>m w. (Round m, w) \<in> set d \<longrightarrow> get_probability w \<le> get_probability v) \<and>
           (\<forall>m w. (Round m, w) \<in> set pre \<longrightarrow> get_probability w < get_probability v)"
proof -
  obtain bp' br' where ol: "optimal_loop d (0, None) = (bp', br')"
    by (cases "optimal_loop d (0, None)")
  from optimal_loop_max [OF ol] assms have pos: "0 < bp'"
    and mx: "\<forall>m w. (Round m, w) \<in> set d \<longrightarrow> get_probability w \<le> bp'"
    by force+
  from optimal_loop_first [OF ol pos] obtain pre n v post where
    dec: "d = pre @ (Round n, v) # post" "br' = Some n" "get_probability v = bp'"
      "\<forall>m w. (Round m, w) \<in> set pre \<longrightarrow> get_probability w < bp'"
    by blast
  have "opt_round (determine_optimal_round d) = Some n"
    "opt_probability (determine_optimal_round d) = bp'"
    using ol dec(2) by (simp_all add: determine_optimal_round_def)
  with dec mx show ?thesis
    by (intro exI [of _ pre] exI [of _ n] exI [of _ v] exI [of _ post]) simp
qed

lemma determine_optimal_round_earliest:
  assumes "sorted_wrt (<) (round_numbers d)" "opt_round (determine_optimal_round d) = Some n"
    "(Round m, w) \<in> set d" "get_probability w = opt_probability (determine_optimal_round d)"
  shows "n \<le> m"
proof -
  obtain bp' br' where ol: "optimal_loop d (0, None) = (bp', br')"
    by (cases "optimal_loop d (0, None)")
  from assms(2) ol have br: "br' = Some n"
    by (cases br') (simp_all add: determine_optimal_round_def)
  with ol have op: "opt_probability (determine_optimal_round d) = bp'"
    by (simp add: determine_optimal_round_def)
  from optimal_loop_achieved [OF ol] br have pos: "0 < bp'" by auto
  from optimal_loop_earliest [OF assms(1) ol [unfolded br] pos assms(3)] assms(4) op
  show ?thesis by simp
qed

lemma make_round_entry_clamped:
  "0 \<le> probability (make_round_entry ex pred rd b) \<and>
   probability (make_round_entry ex pred rd b) \<le> 1"
  by (simp add: make_round_entry_def Let_def)

lemma calculate_round_probabilities_history:
  assumes "filtered_data \<noteq> []"
  shows "\<exists>rp1. calculate_round_probabilities ex predicted_rank
                 (analyze_historical_rounds candidate_air filtered_data)
               = Inr (rp1 @ [(Other ''optimal_round'', Optimal (determine_optimal_round rp1))]) \<and>
               round_numbers rp1 = sort (remdups (map fst filtered_data)) \<and>
               sorted_wrt (<) (round_numbers rp1)"
proof -
  define ns where "ns = sort (remdups (map fst filtered_data))"
  define f where "f = (\<lambda>n. map snd (filter (\<lambda>row. fst row = n) filtered_data))"
  define E where "E = (\<lambda>n. make_round_entry ex predicted_rank
                           (round_statistics candidate_air (f n))
                           (calculate_success_probability candidate_air (f n)))"
  define rp0 where "rp0 = map (\<lambda>n. (Round n, Entry (E n))) ns"
  have dns: "distinct ns" and sns: "sorted ns"
    by (simp_all add: ns_def)
  have an: "analyze_historical_rounds candidate_air filtered_data =
              map (\<lambda>n. (Round n, Stats (round_statistics candidate_air (f n)))) ns
              @ [(Other ''progression_patterns'', NoStats)]"
    using assms by (simp add: analyze_historical_rounds_def ns_def f_def)
  have loop: "round_probabilities_loop ex predicted_rank
                (analyze_historical_rounds candidate_air filtered_data) [] = rp0"
    unfolding an rp0_def E_def
    using round_probabilities_loop_rounds [OF dns, of "[]" ex predicted_rank candidate_air f]
    by simp
  have ue: "unit_entries rp0"
    unfolding rp0_def E_def using make_round_entry_clamped by (intro unit_entries_map) auto
  have dk: "distinct (map fst rp0)"
    using dns by (simp add: rp0_def comp_def distinct_map inj_on_def)
  obtain c where c: "calculate_cumulative_probabilities rp0 = Inr c"
    using calculate_cumulative_probabilities_eq [OF dk ue] by blast
  define rp1 where "rp1 = rp0 @ [(Other ''cumulative_probabilities'', Cumulative c)]"
  have fresh1: "Other ''cumulative_probabilities'' \<notin> fst ` set rp0"
    by (auto simp: rp0_def)
  have set1: "dict_set (Other ''cumulative_probabilities'') (Cumulative c) rp0 = rp1"
    unfolding rp1_def by (rule dict_set_fresh [OF fresh1])
  have fresh2: "Other ''optimal_round'' \<notin> fst ` set rp1"
    by (auto simp: rp1_def rp0_def)
  have set2: "dict_set (Other ''optimal_round'') (Optimal (determine_optimal_round rp1)) rp1
                = rp1 @ [(Other ''optimal_round'', Optimal (determine_optimal_round rp1))]"
    by (rule dict_set_fresh [OF fresh2])
  have res: "calculate_round_probabilities ex predicted_rank
               (analyze_historical_rounds candidate_air filtered_data)
             = Inr (rp1 @ [(Other ''optimal_round'', Optimal (determine_optimal_round rp1))])"
    by (simp add: calculate_round_probabilities_def Let_def loop c set1 set2)
  have rn1: "round_numbers rp1 = ns"
    by (simp add: rp1_def round_numbers_append_Other rp0_def round_numbers_map_Round)
  have strict: "sorted_wrt (<) (round_numbers rp1)"
    unfolding rn1 using dns sns by (simp add: strict_sorted_iff)
  from res rn1 strict show ?thesis unfolding ns_def by blast
qed

text \<open>
  C7, as the specification states it, fails for the function on its own: on a tie it
  returns the round that comes first in the dictionary, here round 2 before round 1, and
  it returns no round when every probability is 0.0.
\<close>

theorem C7_optimal_round_counterexample:
  "opt_round (determine_optimal_round
     [(Round 2, Entry \<lparr>probability = 0.5, confidence = ''High'', historical_median_rank = 20000,
                        candidate_rank_difference = 0, interpretation_label = ''Moderate''\<rparr>),
      (Round 1, Entry \<lparr>probability = 0.5, confidence = ''High'', historical_median_rank = 20000,
                        candidate_rank_difference = 0, interpretation_label = ''Moderate''\<rparr>)])
     = Some 2 \<and>
   opt_round (determine_optimal_round
     [(Round 1, Entry \<lparr>probability = 0, confidence = ''Low'', historical_median_rank = 100,
                        candidate_rank_difference = 79900, interpretation_label = ''Very Low''\<rparr>)])
     = None"
  by (simp add: determine_optimal_round_def)

text \<open>
  C7, amended. When some round has a positive probability, the optimal round returned is
  the first round in dictionary order whose probability is maximal; when no round has a
  positive probability, no round is returned. In a dictionary whose rounds are in
  ascending order the round returned is the lowest-numbered one of maximal probability,
  and the dictionary built from a non-empty history has its rounds, those of the history,
  in ascending order.
\<close>

theorem C7_optimal_round_first_maximal:
  "((\<forall>n v. (Round n, v) \<in> set d \<longrightarrow> get_probability v \<le> 0) \<longrightarrow>
      opt_round (determine_optimal_round d) = None) \<and>
   ((\<exists>n v. (Round n, v) \<in> set d \<and> 0 < get_probability v) \<longrightarrow>
      (\<exists>pre n v post. d = pre @ (Round n, v) # post \<and>
         opt_round (determine_optimal_round d) = Some n \<and>
         opt_probability (determine_optimal_round d) = get_probability v \<and>
         (\<forall>m w. (Round m, w) \<in> set d \<longrightarrow> get_probability w \<le> get_probability v) \<and>
         (\<forall>m w. (Round m, w) \<in> set pre \<longrightarrow> get_probability w < get_probability v))) \<and>
   (sorted_wrt (<) (round_numbers d) \<longrightarrow>
      (\<forall>n m w. opt_round (determine_optimal_round d) = Some n \<and> (Round m, w) \<in> set d \<and>
         get_probability w = opt_probability (determine_optimal_round d) \<longrightarrow> n \<le> m)) \<and>
   (filtered_data \<noteq> [] \<longrightarrow>
      (\<exists>rp1. calculate_round_probabilities np_exp predicted_rank
                (analyze_historical_rounds candidate_air filtered_data)
              = Inr (rp1 @ [(Other ''optimal_round'', Optimal (determine_optimal_round rp1))]) \<and>
              round_numbers rp1 = sort (remdups (map fst filtered_data)) \<and>
              sorted_wrt (<) (round_numbers rp1)))"
proof -
  have a: "(\<forall>n v. (Round n, v) \<in> set d \<longrightarrow> get_probability v \<le> 0) \<longrightarrow>
      opt_round (determine_optimal_round d) = None"
    using determine_optimal_round_none [of d] by blast
  have b: "(\<exists>n v. (Round n, v) \<in> set d \<and> 0 < get_probability v) \<longrightarrow>
      (\<exists>pre n v post. d = pre @ (Round n, v) # post \<and>
         opt_round (determine_optimal_round d) = Some n \<and>
         opt_probability (determine_optimal_round d) = get_probability v \<and>
         (\<forall>m w. (Round m, w) \<in> set d \<longrightarrow> get_probability w \<le> get_probability v) \<and>
         (\<forall>m w. (Round m, w) \<in> set pre \<longrightarrow> get_probability w < get_probability v))"
    using determine_optimal_round_first [of _ _ d] by blast
  have c: "sorted_wrt (<) (round_numbers d) \<longrightarrow>
      (\<forall>n m w. opt_round (determine_optimal_round d) = Some n \<and> (Round m, w) \<in> set d \<and>
         get_probability w = opt_probability (determine_optimal_round d) \<longrightarrow> n \<le> m)"
    using determine_optimal_round_earliest [of d] by blast
  have e: "filtered_data \<noteq> [] \<longrightarrow>
      (\<exists>rp1. calculate_round_probabilities np_exp predicted_rank
                (analyze_historical_rounds candidate_air filtered_data)
              = Inr (rp1 @ [(Other ''optimal_round'', Optimal (determine_optimal_round rp1))]) \<and>
              round_numbers rp1 = sort (remdups (map fst filtered_data)) \<and>
              sorted_wrt (<) (round_numbers rp1))"
    using calculate_round_probabilities_history [of filtered_data np_exp predicted_rank candidate_air]
    by blast
  from a b c e show ?thesis by (intro conjI)
qed

theorem C7_optimal_round_first_maximal_witness:
  "opt_round (determine_optimal_round
     [(Round 1, Entry \<lparr>probability = 0, confidence = ''Low'', historical_median_rank = 100,
                        candidate_rank_difference = 79900, interpretation_label = ''Very Low''\<rparr>)])
     = None \<and>
   (\<exists>pre n v post.
      [(Round 2, Entry \<lparr>probability = 0.5, confidence = ''High'', historical_median_rank = 20000,
                         candidate_rank_difference = 0, interpretation_label = ''Moderate''\<rparr>),
       (Round 1, Entry \<lparr>probability = 0.5, confidence = ''High'', historical_median_rank = 20000,
                         candidate_rank_difference = 0, interpretation_label = ''Moderate''\<rparr>)]
        = pre @ (Round n, v) # post \<and>
      opt_round (determine_optimal_round
        [(Round 2, Entry \<lparr>probability = 0.5, confidence = ''High'', historical_median_rank = 20000,
                           candidate_rank_difference = 0, interpretation_label = ''Moderate''\<rparr>),
         (Round 1, Entry \<lparr>probability = 0.5, confidence = ''High'', historical_median_rank = 20000,
                           candidate_rank_difference = 0, interpretation_label = ''Moderate''\<rparr>)])
        = Some n \<and>
      (\<forall>m w. (Round m, w) \<in> set pre \<longrightarrow> get_probability w < get_probability v)) \<and>
   (\<exists>rp1. calculate_round_probabilities exp 27000
             (analyze_historical_rounds 25000 [(2, 30000), (1, 28000), (1, 26000)])
           = Inr (rp1 @ [(Other ''optimal_round'', Optimal (determine_optimal_round rp1))]) \<and>
           round_numbers rp1 = [1, 2] \<and>
           (\<forall>n m w. opt_round (determine_optimal_round rp1) = Some n \<and> (Round m, w) \<in> set rp1 \<and>
              get_probability w = opt_probability (determine_optimal_round rp1) \<longrightarrow> n \<le> m))"
proof -
  let ?zero = "[(Round 1, Entry \<lparr>probability = 0, confidence = ''Low'', historical_median_rank = 100,
                        candidate_rank_difference = 79900, interpretation_label = ''Very Low''\<rparr>)]"
  let ?tie = "[(Round 2, Entry \<lparr>probability = 0.5, confidence = ''High'', historical_median_rank = 20000,
                         candidate_rank_difference = 0, interpretation_label = ''Moderate''\<rparr>),
       (Round 1, Entry \<lparr>probability = 0.5, confidence = ''High'', historical_median_rank = 20000,
                         candidate_rank_difference = 0, interpretation_label = ''Moderate''\<rparr>)]"
  have a: "opt_round (determine_optimal_round ?zero) = None"
    using C7_optimal_round_first_maximal [of ?zero, THEN conjunct1] by simp
  have pos: "\<exists>n v. (Round n, v) \<in> set ?tie \<and> 0 < get_probability v"
    by (rule exI [of _ 2], rule exI [of _ "snd (hd ?tie)"]) simp
  from C7_optimal_round_first_maximal [of ?tie, THEN conjunct2, THEN conjunct1, rule_format, OF pos]
  obtain pre n v post where tie: "?tie = pre @ (Round n, v) # post"
    "opt_round (determine_optimal_round ?tie) = Some n"
    "\<forall>m w. (Round m, w) \<in> set pre \<longrightarrow> get_probability w < get_probability v"
    by blast
  have b: "\<exists>pre n v post. ?tie = pre @ (Round n, v) # post \<and>
      opt_round (determine_optimal_round ?tie) = Some n \<and>
      (\<forall>m w. (Round m, w) \<in> set pre \<longrightarrow> get_probability w < get_probability v)"
    using tie by blast
  have ne: "[(2 :: int, 30000 :: real), (1, 28000), (1, 26000)] \<noteq> []" by simp
  from C7_optimal_round_first_maximal
    [of _ "[(2, 30000), (1, 28000), (1, 26000)]" exp 27000 25000,
      THEN conjunct2, THEN conjunct2, THEN conjunct2, rule_format, OF ne]
  obtain rp1 where rp1:
    "calculate_round_probabilities exp 27000
       (analyze_historical_rounds 25000 [(2, 30000), (1, 28000), (1, 26000)])
     = Inr (rp1 @ [(Other ''optimal_round'', Optimal (determine_optimal_round rp1))])"
    "round_numbers rp1 = sort (remdups (map fst [(2 :: int, 30000 :: real), (1, 28000), (1, 26000)]))"
    "sorted_wrt (<) (round_numbers rp1)"
    by blast
  from rp1(2) have rn: "round_numbers rp1 = [1, 2]" by simp
  have c: "\<forall>n m w. opt_round (determine_optimal_round rp1) = Some n \<and> (Round m, w) \<in> set rp1 \<and>
              get_probability w = opt_probability (determine_optimal_round rp1) \<longrightarrow> n \<le> m"
    by (rule C7_optimal_round_first_maximal
        [of rp1, THEN conjunct2, THEN conjunct2, THEN conjunct1, THEN mp, OF rp1(3)])
  have e: "\<exists>rp1. calculate_round_probabilities exp 27000
             (analyze_historical_rounds 25000 [(2, 30000), (1, 28000), (1, 26000)])
           = Inr (rp1 @ [(Other ''optimal_round'', Optimal (determine_optimal_round rp1))]) \<and>
           round_numbers rp1 = [1, 2] \<and>
           (\<forall>n m w. opt_round (determine_optimal_round rp1) = Some n \<and> (Round m, w) \<in> set rp1 \<and>
              get_probability w = opt_probability (determine_optimal_round rp1) \<longrightarrow> n \<le> m)"
    using rp1(1) rn c by (intro exI [of _ rp1] conjI)
  from a b e show ?thesis by (intro conjI)
qed

section \<open>Properties of the prediction list\<close>















end
